theory Spec2Isabelle
  imports Main "HOL-Library.AList" "HOL-Library.Word"
begin

section \<open>Dynamic values, errors and outcomes\<close>

text \<open>
  The handlers of \<^verbatim>\<open>internal/manual_approval/execute.go\<close> work on values of type
  \<^verbatim>\<open>interface{}\<close>.  A value of that type carries its dynamic type; the constructors
  below are the dynamic types that occur in the package: \<^verbatim>\<open>nil\<close>,
  \<^verbatim>\<open>string\<close>, \<^verbatim>\<open>int\<close> (64 bits on the build target), \<^verbatim>\<open>float64\<close> (its 64
  IEEE-754 bits), \<^verbatim>\<open>bool\<close>, \<^verbatim>\<open>[]string\<close>, \<^verbatim>\<open>[]interface{}\<close> and
  \<^verbatim>\<open>map[string]interface{}\<close>.  A map is an association list read with
  \<^const>\<open>map_of\<close> and written with \<^const>\<open>AList.update\<close>.
\<close>

datatype go_value =
    VNil
  | VString string
  | VInt "64 word"
  | VFloat64 "64 word"
  | VBool bool
  | VStrings "string list"
  | VSlice "go_value list"
  | VMap "(string \<times> go_value) list"

text \<open>
  Error values.  \<open>Errorf\<close> is the result of \<^verbatim>\<open>fmt.Errorf\<close> with the formatted message,
  \<open>Wrapf\<close> the result of \<^verbatim>\<open>fmt.Errorf\<close> with a trailing \<^verbatim>\<open>%w\<close> (rendered
  prefix and wrapped error), \<open>NumError\<close> is \<^verbatim>\<open>*strconv.NumError\<close> with
  \<^verbatim>\<open>Err = strconv.ErrSyntax\<close> (fields \<^verbatim>\<open>Func\<close> and \<^verbatim>\<open>Num\<close>), and \<open>LibError\<close> is
  an error produced by a library or by the transport, with its message.
\<close>

datatype error =
    Errorf string
  | Wrapf string error
  | NumError string string
  | LibError string

text \<open>A call either returns or panics (the process then crashes with the message).\<close>

datatype 'a outcome = Return 'a | Panic string

abbreviation NL :: string where
  "NL \<equiv> [CHR 0x0A]"

section \<open>The external collaborators\<close>

record http_request =
  req_method :: string
  req_url :: string
  req_headers :: "(string \<times> string) list"
  req_body :: string

text \<open>\<open>resp_Body\<close> is what \<^verbatim>\<open>io.ReadAll(resp.Body)\<close> gives.\<close>

record http_response =
  resp_StatusCode :: int
  resp_Status :: string
  resp_Body :: "error + string"

record Approvers =
  UserName :: string
  UserId :: string
  Email :: string

text \<open>
  Library functions and the outside world, which the package only calls:
  \<^verbatim>\<open>encoding/json\<close>, \<^verbatim>\<open>net/url\<close>, \<^verbatim>\<open>net/http\<close>, the HTTP client of the
  \<^verbatim>\<open>Config\<close>, the file system, \<^verbatim>\<open>path/filepath\<close>, goldmark, and the formatting
  functions of \<^verbatim>\<open>strconv\<close> and \<^verbatim>\<open>fmt\<close> whose output is not spelled out in the
  package.  \<open>json_Unmarshal_map\<close> decodes into a \<^verbatim>\<open>map[string]interface{}\<close>,
  \<open>json_Unmarshal_response\<close> into a \<^verbatim>\<open>CreateManualApprovalResponse\<close> (the list of its
  \<^verbatim>\<open>Approvers\<close> field); \<open>os_WriteFile_error\<close> says for which path a write fails;
  \<open>strconv_FormatFloat\<close> is \<^verbatim>\<open>strconv.FormatFloat(v, 'g', -1, 64)\<close>; \<open>fmt_s\<close> is
  the rendering of a non-string value under the verb \<^verbatim>\<open>%s\<close>.
\<close>

record platform =
  json_Marshal :: "go_value \<Rightarrow> error + string"
  json_Unmarshal_map :: "string \<Rightarrow> error + (string \<times> go_value) list"
  json_Unmarshal_response :: "string \<Rightarrow> error + Approvers list"
  url_JoinPath :: "string \<Rightarrow> string \<Rightarrow> error + string"
  http_NewRequest_error :: "string \<Rightarrow> string \<Rightarrow> error option"
  client_Do :: "http_request \<Rightarrow> error + http_response"
  os_WriteFile_error :: "string \<Rightarrow> error option"
  filepath_Join :: "string \<Rightarrow> string \<Rightarrow> string"
  goldmark_Convert :: "string \<Rightarrow> error + string"
  strconv_FormatFloat :: "64 word \<Rightarrow> string"
  strconv_Quote :: "string \<Rightarrow> string"
  fmt_s :: "go_value \<Rightarrow> string"

text \<open>
  The state a handler reads and changes: the environment variables (\<^verbatim>\<open>os.Getenv\<close> gives
  the empty string for an unset variable), the files, the lines given to \<^verbatim>\<open>k.Output\<close>,
  the lines printed with \<^verbatim>\<open>fmt\<close> directly, and the requests handed to the HTTP client.
  The diagnostic lines of \<^verbatim>\<open>debugf\<close> (printed only under \<^verbatim>\<open>DEBUG=true\<close>, each with
  the time of day) are left out: they change nothing else.
\<close>

record world =
  env :: "string \<Rightarrow> string"
  files :: "string \<rightharpoonup> string"
  printed :: "string list"
  stdout :: "string list"
  requests :: "http_request list"

definition Getenv :: "world \<Rightarrow> string \<Rightarrow> string" where
  "Getenv w name = env w name"

definition Printf :: "string \<Rightarrow> world \<Rightarrow> world" where
  "Printf s w = w\<lparr>printed := printed w @ [s]\<rparr>"

definition Println :: "string \<Rightarrow> world \<Rightarrow> world" where
  "Println s w = w\<lparr>printed := printed w @ [s @ NL]\<rparr>"

definition os_WriteFile :: "platform \<Rightarrow> string \<Rightarrow> string \<Rightarrow> world \<Rightarrow> error + world" where
  "os_WriteFile P name data w =
     (case os_WriteFile_error P name of
        Some err \<Rightarrow> Inl err
      | None \<Rightarrow> Inr (w\<lparr>files := (files w)(name \<mapsto> data)\<rparr>))"

section \<open>Library functions with a fixed meaning\<close>

fun error_text :: "platform \<Rightarrow> error \<Rightarrow> string" where
  "error_text P (Errorf s) = s"
| "error_text P (Wrapf s e) = s @ error_text P e"
| "error_text P (NumError f n) =
     ''strconv.'' @ f @ '': parsing '' @ strconv_Quote P n @ '': invalid syntax''"
| "error_text P (LibError s) = s"

definition strconv_ParseBool :: "string \<Rightarrow> error + bool" where
  "strconv_ParseBool str =
     (if List.member [''1'', ''t'', ''T'', ''true'', ''TRUE'', ''True''] str then Inr True
      else if List.member [''0'', ''f'', ''F'', ''false'', ''FALSE'', ''False''] str then Inr False
      else Inl (NumError ''ParseBool'' str))"

definition strconv_FormatBool :: "bool \<Rightarrow> string" where
  "strconv_FormatBool b = (if b then ''true'' else ''false'')"

definition digit :: "nat \<Rightarrow> char" where
  "digit d = ''0123456789abcdefghijklmnopqrstuvwxyz'' ! d"

function format_nat :: "nat \<Rightarrow> nat \<Rightarrow> string" where
  "format_nat b n =
     (if b < 2 then []
      else if n < b then [digit n]
      else format_nat b (n div b) @ [digit (n mod b)])"
  by pat_completeness auto
termination
  by (relation "measure snd") auto

text \<open>\<^verbatim>\<open>strconv.FormatInt(i, base)\<close>: a base outside 2..36 panics.\<close>

definition strconv_FormatInt :: "64 word \<Rightarrow> nat \<Rightarrow> string outcome" where
  "strconv_FormatInt i base =
     (if base < 2 \<or> base > 36 then Panic ''strconv: illegal AppendInt/FormatInt base''
      else if sint i < 0 then Return (''-'' @ format_nat base (nat (- sint i)))
      else Return (format_nat base (nat (sint i))))"

text \<open>The verb \<^verbatim>\<open>%d\<close> on an \<^verbatim>\<open>int\<close>.\<close>

definition fmt_d :: "int \<Rightarrow> string" where
  "fmt_d i = (if i < 0 then ''-'' @ format_nat 10 (nat (- i)) else format_nat 10 (nat i))"

text \<open>\<^verbatim>\<open>strings.Split(s, sep)\<close> and \<^verbatim>\<open>strings.Join(xs, sep)\<close> for a separator of one byte,
  as the package calls them.\<close>

fun Split_from :: "string \<Rightarrow> string \<Rightarrow> char \<Rightarrow> string list" where
  "Split_from cur [] sep = [rev cur]"
| "Split_from cur (c # cs) sep =
     (if c = sep then rev cur # Split_from [] cs sep else Split_from (c # cur) cs sep)"

definition strings_Split :: "string \<Rightarrow> char \<Rightarrow> string list" where
  "strings_Split s sep = Split_from [] s sep"

fun strings_Join :: "string list \<Rightarrow> string \<Rightarrow> string" where
  "strings_Join [] sep = []"
| "strings_Join [x] sep = x"
| "strings_Join (x # y # ys) sep = x @ sep @ strings_Join (y # ys) sep"

text \<open>\<^verbatim>\<open>strings.Replace(s, "\n", "<br/>", -1)\<close>.\<close>

definition Replace_newlines :: "string \<Rightarrow> string" where
  "Replace_newlines s = concat (map (\<lambda>c. if c = CHR 0x0A then ''<br/>'' else [c]) s)"

text \<open>Reading a \<^verbatim>\<open>map[string]interface{}\<close> at a key: \<^verbatim>\<open>nil\<close> when the key is absent.\<close>

definition index :: "(string \<times> go_value) list \<Rightarrow> string \<Rightarrow> go_value" where
  "index m k = (case map_of m k of None \<Rightarrow> VNil | Some v \<Rightarrow> v)"

fun type_name :: "go_value \<Rightarrow> string" where
  "type_name VNil = ''nil''"
| "type_name (VString _) = ''string''"
| "type_name (VInt _) = ''int''"
| "type_name (VFloat64 _) = ''float64''"
| "type_name (VBool _) = ''bool''"
| "type_name (VStrings _) = ''[]string''"
| "type_name (VSlice _) = ''[]interface {}''"
| "type_name (VMap _) = ''map[string]interface {}''"

definition conversion_panic :: "go_value \<Rightarrow> string \<Rightarrow> string" where
  "conversion_panic v target =
     ''interface conversion: interface {} is '' @ type_name v @ '', not '' @ target"

text \<open>The single-value type assertions \<^verbatim>\<open>v.(string)\<close>, \<^verbatim>\<open>v.([]interface{})\<close> and
  \<^verbatim>\<open>v.(map[string]interface{})\<close>.\<close>

fun assert_string :: "go_value \<Rightarrow> string outcome" where
  "assert_string (VString s) = Return s"
| "assert_string v = Panic (conversion_panic v ''string'')"

fun assert_slice :: "go_value \<Rightarrow> go_value list outcome" where
  "assert_slice (VSlice xs) = Return xs"
| "assert_slice v = Panic (conversion_panic v ''[]interface {}'')"

fun assert_map :: "go_value \<Rightarrow> (string \<times> go_value) list outcome" where
  "assert_map (VMap m) = Return m"
| "assert_map v = Panic (conversion_panic v ''map[string]interface {}'')"

section \<open>The package\<close>

subsection \<open>Configuration, the POST helper and the writers\<close>

definition defaultConfig :: "world \<Rightarrow> string \<times> string \<times> error option" where
  "defaultConfig w =
     (let apiUrl = Getenv w ''URL'' in
      if apiUrl = '''' then ('''', '''', Some (Errorf ''URL environment variable missing''))
      else
        let apiToken = Getenv w ''API_TOKEN'' in
        if apiToken = '''' then ('''', ''nil'', Some (Errorf ''API_TOKEN environment variable missing''))
        else (apiUrl, apiToken, None))"

text \<open>
  \<^verbatim>\<open>post\<close> returns the response text and an error (\<open>None\<close> is \<^verbatim>\<open>nil\<close>).  The request
  built by \<^verbatim>\<open>http.NewRequest\<close> and the three \<^verbatim>\<open>Header.Set\<close> calls is recorded in
  \<open>requests\<close> when it is handed to the client.
\<close>

text \<open>\<^verbatim>\<open>http.NewRequest("POST", requestURL, body)\<close> with the three headers set.\<close>

definition new_request :: "string \<Rightarrow> string \<Rightarrow> string \<Rightarrow> http_request" where
  "new_request requestURL apiToken body =
     \<lparr>req_method = ''POST'', req_url = requestURL,
      req_headers = [(''Authorization'', ''Bearer '' @ apiToken),
                     (''Content-Type'', ''application/json''),
                     (''Accept'', ''application/json'')],
      req_body = body\<rparr>"

text \<open>The error of \<^verbatim>\<open>post\<close> for a status code other than 200.\<close>

definition send_event_error :: "string \<Rightarrow> http_response \<Rightarrow> error" where
  "send_event_error requestURL resp =
     Errorf (''failed to send event: '' @ NL @ ''POST '' @ requestURL @ NL
             @ ''HTTP/'' @ fmt_d (resp_StatusCode resp) @ '' '' @ resp_Status resp @ NL)"

definition post ::
  "platform \<Rightarrow> string \<Rightarrow> (string \<times> go_value) list \<Rightarrow> world \<Rightarrow> (string \<times> error option) \<times> world" where
  "post P apiPath requestBody w =
     (case defaultConfig w of
        (apiUrl, apiToken, Some err) \<Rightarrow> (('''', Some err), w)
      | (apiUrl, apiToken, None) \<Rightarrow>
        (case url_JoinPath P apiUrl apiPath of
           Inl err \<Rightarrow> (('''', Some err), w)
         | Inr requestURL \<Rightarrow>
           (case json_Marshal P (VMap requestBody) of
              Inl err \<Rightarrow> (('''', Some err), w)
            | Inr body \<Rightarrow>
              (case http_NewRequest_error P ''POST'' requestURL of
                 Some err \<Rightarrow> (('''', Some err), w)
               | None \<Rightarrow>
                 (let apiReq = new_request requestURL apiToken body;
                      w' = w\<lparr>requests := requests w @ [apiReq]\<rparr>
                  in case client_Do P apiReq of
                       Inl err \<Rightarrow> (('''', Some err), w')
                     | Inr resp \<Rightarrow>
                       (case resp_Body resp of
                          Inl err \<Rightarrow> (('''', Some err), w')
                        | Inr response \<Rightarrow>
                          if resp_StatusCode resp \<noteq> 200
                          then ((response, Some (send_event_error requestURL resp)), w')
                          else ((response, None), w')))))))"

definition writeAsOutput :: "platform \<Rightarrow> string \<Rightarrow> string \<Rightarrow> world \<Rightarrow> error option \<times> world" where
  "writeAsOutput P name val w =
     (let outputsDir = Getenv w ''CLOUDBEES_OUTPUTS'' in
      if outputsDir = '''' then (Some (Errorf ''CLOUDBEES_OUTPUTS environment variable missing''), w)
      else
        let outputFile = filepath_Join P outputsDir name in
        case os_WriteFile P outputFile val w of
          Inl err \<Rightarrow> (Some (Wrapf (''failed to write to '' @ outputFile @ '': '') err), w)
        | Inr w' \<Rightarrow> (None, w'))"

definition writeStatus :: "platform \<Rightarrow> string \<Rightarrow> string \<Rightarrow> world \<Rightarrow> error option \<times> world" where
  "writeStatus P status message w =
     (let statusFile = Getenv w ''CLOUDBEES_STATUS'' in
      if statusFile = '''' then (Some (Errorf ''CLOUDBEES_STATUS environment variable missing''), w)
      else
        case json_Marshal P (VMap [(''status'', VString status), (''message'', VString message)]) of
          Inl err \<Rightarrow> (Some err, w)
        | Inr outputBytes \<Rightarrow>
          (case os_WriteFile P statusFile outputBytes w of
             Inl err \<Rightarrow> (Some (Wrapf (''failed to write to '' @ statusFile @ '': '') err), w)
           | Inr w' \<Rightarrow> (None, w')))"

definition markdown :: "platform \<Rightarrow> string \<Rightarrow> world \<Rightarrow> string \<times> world" where
  "markdown P val w =
     (case goldmark_Convert P val of
        Inl err \<Rightarrow>
          (val, w\<lparr>stdout := stdout w @ [''Failed to convert markdown to html: '' @ error_text P err @ NL]\<rparr>)
      | Inr html \<Rightarrow> (html, w))"

subsection \<open>Value coercion\<close>

fun interfaceToString :: "platform \<Rightarrow> go_value \<Rightarrow> string outcome" where
  "interfaceToString P (VString v) = Return v"
| "interfaceToString P (VInt v) = strconv_FormatInt v 64"
| "interfaceToString P (VFloat64 v) = Return (strconv_FormatFloat P v)"
| "interfaceToString P (VBool v) = Return (strconv_FormatBool v)"
| "interfaceToString P _ = Return ''unsupported type''"

text \<open>
  The loop of \<^verbatim>\<open>formatInputsForPost\<close> over the entries of \<^verbatim>\<open>inputs\<close>.  The source
  changes each entry in place; the entries are separate objects (they come out of
  \<^verbatim>\<open>json.Unmarshal\<close>), so the loop returns the changed entries together with
  \<^verbatim>\<open>outputsMap\<close>.
\<close>

fun formatInputsForPost_loop ::
  "platform \<Rightarrow> go_value list \<Rightarrow> (string \<times> go_value) list
     \<Rightarrow> (go_value list \<times> (string \<times> go_value) list) outcome" where
  "formatInputsForPost_loop P [] outputsMap = Return ([], outputsMap)"
| "formatInputsForPost_loop P (input # rest) outputsMap =
     (case assert_map input of
        Panic p \<Rightarrow> Panic p
      | Return ip \<Rightarrow>
        (case assert_string (index ip ''name'') of
           Panic p \<Rightarrow> Panic p
         | Return name \<Rightarrow>
           (case interfaceToString P (index ip ''value'') of
              Panic p \<Rightarrow> Panic p
            | Return inputVal \<Rightarrow>
              (case formatInputsForPost_loop P rest
                      (AList.update name (index ip ''value'') outputsMap) of
                 Panic p \<Rightarrow> Panic p
               | Return (rest', outputsMap') \<Rightarrow>
                   Return (VMap (AList.update ''value'' (VString inputVal) ip) # rest',
                           outputsMap')))))"

text \<open>
  The result is the triple the source returns (a \<^verbatim>\<open>nil\<close> slice is the empty list, a
  \<^verbatim>\<open>nil\<close> map is \<open>None\<close>) and the payload as the call leaves it.
\<close>

definition formatInputsForPost ::
  "platform \<Rightarrow> (string \<times> go_value) list \<Rightarrow> world
     \<Rightarrow> ((go_value list \<times> (string \<times> go_value) list option \<times> error option)
          \<times> (string \<times> go_value) list) outcome \<times> world" where
  "formatInputsForPost P parsedPayload w =
     (if index parsedPayload ''inputs'' = VNil
      then (Return (([], Some [], None), parsedPayload), w)
      else
        case assert_slice (index parsedPayload ''inputs'') of
          Panic p \<Rightarrow> (Panic p, w)
        | Return inputs \<Rightarrow>
          if length inputs > 0 then
            (case formatInputsForPost_loop P inputs [] of
               Panic p \<Rightarrow> (Panic p, w)
             | Return (modifiedInputsParamForPost, outputsMap) \<Rightarrow>
               (let parsedPayload' =
                      AList.update ''inputs'' (VSlice modifiedInputsParamForPost) parsedPayload
                in case json_Marshal P (VMap parsedPayload') of
                     Inl err2 \<Rightarrow>
                       (Return (([], None, Some err2), parsedPayload'),
                        w\<lparr>stdout := stdout w @
                           [''Invalid payload after converting input values to string: ''
                            @ error_text P err2 @ NL]\<rparr>)
                   | Inr updtVal \<Rightarrow>
                       (Return ((modifiedInputsParamForPost, Some outputsMap, None), parsedPayload'),
                        w)))
          else (Return (([], Some [], None), parsedPayload), w))"

definition writeToOutputs ::
  "platform \<Rightarrow> (string \<times> go_value) list option \<Rightarrow> string \<Rightarrow> world \<Rightarrow> error option \<times> world" where
  "writeToOutputs P outputsMap comments w =
     (case (case outputsMap of
              None \<Rightarrow> (None, w)
            | Some m \<Rightarrow>
              (case json_Marshal P (VMap m) of
                 Inl err \<Rightarrow> (Some err, w)
               | Inr outputBytes \<Rightarrow> writeAsOutput P ''approvalInputValues'' outputBytes w)) of
        (Some err, w') \<Rightarrow> (Some err, w')
      | (None, w') \<Rightarrow> writeAsOutput P ''comments'' comments w')"

text \<open>The verb \<^verbatim>\<open>%s\<close> on an \<^verbatim>\<open>interface{}\<close>: a string is printed as it is.\<close>

definition Sprint_s :: "platform \<Rightarrow> go_value \<Rightarrow> string" where
  "Sprint_s P v = (case v of VString s \<Rightarrow> s | _ \<Rightarrow> fmt_s P v)"

fun formatInputsValsAndWriteToLog_loop ::
  "platform \<Rightarrow> go_value list \<Rightarrow> world \<Rightarrow> unit outcome \<times> world" where
  "formatInputsValsAndWriteToLog_loop P [] w = (Return (), w)"
| "formatInputsValsAndWriteToLog_loop P (input # rest) w =
     (case assert_map input of
        Panic p \<Rightarrow> (Panic p, w)
      | Return ip \<Rightarrow>
        (case assert_string (index ip ''value'') of
           Panic p \<Rightarrow> (Panic p, w)
         | Return inputVal \<Rightarrow>
           (let inputVal1 = Replace_newlines inputVal;
                inputVal2 = (if index ip ''is_default'' = VBool True
                             then inputVal1 @ '' (default)'' else inputVal1)
            in formatInputsValsAndWriteToLog_loop P rest
                 (Printf ('' '' @ Sprint_s P (index ip ''name'') @ '': '' @ inputVal2 @ '' '' @ NL) w))))"

definition formatInputsValsAndWriteToLog ::
  "platform \<Rightarrow> go_value list \<Rightarrow> world \<Rightarrow> unit outcome \<times> world" where
  "formatInputsValsAndWriteToLog P modifiedInputsParamForPost w =
     (if length modifiedInputsParamForPost > 0
      then formatInputsValsAndWriteToLog_loop P modifiedInputsParamForPost
             (Printf (''------------------'' @ NL) (Printf (NL @ ''Input Parameters:'' @ NL) w))
      else (Return (), w))"

text \<open>The text \<^verbatim>\<open>Unexpected approval status '%s'\<close>.\<close>

definition unexpected_status_text :: "string \<Rightarrow> string" where
  "unexpected_status_text approvalStatus =
     ''Unexpected approval status '' @ [CHR 0x27] @ approvalStatus @ [CHR 0x27]"

definition processApprovalStatus ::
  "platform \<Rightarrow> string \<Rightarrow> string \<Rightarrow> string \<Rightarrow> string \<Rightarrow> world \<Rightarrow> (string \<times> error option) \<times> world" where
  "processApprovalStatus P approvalStatus approverUserName respondedOn comments w =
     (if approvalStatus = ''UPDATE_MANUAL_APPROVAL_STATUS_APPROVED''
      then ((''APPROVED'', None),
            Printf (''Approved by '' @ approverUserName @ '' on '' @ respondedOn
                    @ '' with comments:'' @ NL @ comments @ NL) w)
      else if approvalStatus = ''UPDATE_MANUAL_APPROVAL_STATUS_REJECTED''
      then ((''REJECTED'', None),
            Printf (''Rejected by '' @ approverUserName @ '' on '' @ respondedOn
                    @ '' with comments:'' @ NL @ comments @ NL) w)
      else
        case writeStatus P ''FAILED'' (unexpected_status_text approvalStatus)
               (Printf (''ERROR: '' @ unexpected_status_text approvalStatus @ NL) w) of
          (Some ferr, w') \<Rightarrow> (('''', Some ferr), w')
        | (None, w') \<Rightarrow> (('''', Some (Errorf (unexpected_status_text approvalStatus))), w'))"

subsection \<open>The three handlers\<close>

text \<open>The request body that \<^verbatim>\<open>init\<close> builds (the map literal and the three conditional
  assignments that follow it).\<close>

definition init_body ::
  "string \<Rightarrow> string \<Rightarrow> string \<Rightarrow> bool \<Rightarrow> bool \<Rightarrow> (string \<times> go_value) list" where
  "init_body approvers instructions inputs disallowLaunchedByUser notify =
     (let body = [(''disallowLaunchedByUser'', VBool disallowLaunchedByUser),
                  (''notifyEligibleUsers'', VBool notify)];
          body = (if approvers \<noteq> ''''
                  then AList.update ''approvers'' (VStrings (strings_Split approvers (CHR '',''))) body
                  else body);
          body = (if instructions \<noteq> ''''
                  then AList.update ''instructions'' (VString instructions) body
                  else body);
          body = (if inputs \<noteq> ''''
                  then AList.update ''approvalInputs'' (VString inputs) body
                  else body)
      in body)"

text \<open>The two lines printed when \<^verbatim>\<open>post\<close> gives an error.\<close>

definition print_api_failure :: "platform \<Rightarrow> error \<Rightarrow> string \<Rightarrow> world \<Rightarrow> world" where
  "print_api_failure P err resp w =
     Printf (''ERROR: API response: '' @ [CHR 0x27] @ resp @ [CHR 0x27] @ NL)
       (Printf (''ERROR: API call failed with error: '' @ [CHR 0x27] @ error_text P err @ [CHR 0x27] @ NL) w)"

text \<open>The messages of the \<^verbatim>\<open>FAILED\<close> status record after a failed request.\<close>

definition init_failure_message :: "platform \<Rightarrow> error \<Rightarrow> string" where
  "init_failure_message P err =
     ''Failed to initialize workflow manual approval request: ''
     @ [CHR 0x27] @ error_text P err @ [CHR 0x27]"

definition callback_failure_message :: "platform \<Rightarrow> error \<Rightarrow> string" where
  "callback_failure_message P err =
     ''Failed to change workflow manual approval status: ''
     @ [CHR 0x27] @ error_text P err @ [CHR 0x27]"

definition init :: "platform \<Rightarrow> world \<Rightarrow> error option \<times> world" where
  "init P w =
     (let approvers = Getenv w ''APPROVERS'';
          instructions = Getenv w ''INSTRUCTIONS'';
          disallowLaunchedByUserStr = Getenv w ''DISALLOW_LAUNCHED_BY_USER'';
          disallowLaunchedByUserStr =
            (if disallowLaunchedByUserStr = '''' then ''false'' else disallowLaunchedByUserStr)
      in case strconv_ParseBool disallowLaunchedByUserStr of
           Inl err \<Rightarrow> (Some err, w)
         | Inr disallowLaunchedByUser \<Rightarrow>
           (let notifyStr = Getenv w ''NOTIFY_ALL_ELIGIBLE_USERS'';
                notifyStr = (if notifyStr = '''' then ''false'' else notifyStr)
            in case strconv_ParseBool notifyStr of
                 Inl err \<Rightarrow> (Some err, w)
               | Inr notify \<Rightarrow>
                 (let inputs = Getenv w ''INPUTS'';
                      body = init_body approvers instructions inputs disallowLaunchedByUser notify
                  in case post P ''/v1/workflows/approval'' body w of
                       ((resp, Some err), w1) \<Rightarrow>
                         (case writeStatus P ''FAILED'' (init_failure_message P err)
                                 (print_api_failure P err resp w1) of
                            (Some ferr, w2) \<Rightarrow> (Some ferr, w2)
                          | (None, w2) \<Rightarrow> (Some err, w2))
                     | ((resp, None), w1) \<Rightarrow>
                         (case json_Unmarshal_response P resp of
                            Inl err \<Rightarrow> (Some err, w1)
                          | Inr parsedResp \<Rightarrow>
                            (let users = map UserName parsedResp;
                                 w2 = Printf (''Waiting for approval from one of the following: ''
                                              @ strings_Join users '','' @ NL) w1;
                                 w3 = (if instructions \<noteq> ''''
                                       then (case markdown P instructions w2 of
                                               (html, w') \<Rightarrow>
                                                 Printf (''Instructions:'' @ NL @ html @ NL) w')
                                       else w2)
                             in writeStatus P ''PENDING_APPROVAL''
                                  ''Waiting for approval from approvers'' w3)))))"

text \<open>The last steps of \<^verbatim>\<open>callback\<close>, from the log of the input values to the final
  status record.\<close>

definition callback_finish ::
  "platform \<Rightarrow> string \<Rightarrow> go_value list \<Rightarrow> (string \<times> go_value) list option \<Rightarrow> string \<Rightarrow> world
     \<Rightarrow> error option outcome \<times> world" where
  "callback_finish P jobStatus modifiedInputsParamForPost outputsMap comments w2 =
     (case formatInputsValsAndWriteToLog P modifiedInputsParamForPost w2 of
        (Panic p, w3) \<Rightarrow> (Panic p, w3)
      | (Return u, w3) \<Rightarrow>
        (case writeToOutputs P outputsMap comments w3 of
           (Some err3, w4) \<Rightarrow> (Return (Some err3), w4)
         | (None, w4) \<Rightarrow>
           (case writeStatus P jobStatus ''Successfully changed workflow manual approval status'' w4 of
              (r, w5) \<Rightarrow> (Return r, w5))))"

definition callback :: "platform \<Rightarrow> world \<Rightarrow> error option outcome \<times> world" where
  "callback P w =
     (let payload = Getenv w ''PAYLOAD'' in
      if payload = '''' then (Return (Some (Errorf ''PAYLOAD environment variable missing'')), w)
      else
        case json_Unmarshal_map P payload of
          Inl err \<Rightarrow> (Return (Some err), w)
        | Inr parsedPayload \<Rightarrow>
        (case assert_string (index parsedPayload ''status'') of
          Panic p \<Rightarrow> (Panic p, w)
        | Return approvalStatus \<Rightarrow>
        (case assert_string (index parsedPayload ''comments'') of
          Panic p \<Rightarrow> (Panic p, w)
        | Return comments \<Rightarrow>
        (case assert_string (index parsedPayload ''respondedOn'') of
          Panic p \<Rightarrow> (Panic p, w)
        | Return respondedOn \<Rightarrow>
        (case assert_string (index parsedPayload ''userName'') of
          Panic p \<Rightarrow> (Panic p, w)
        | Return approverUserName \<Rightarrow>
        (case formatInputsForPost P parsedPayload w of
          (Panic p, w0) \<Rightarrow> (Panic p, w0)
        | (Return ((modifiedInputsParamForPost, outputsMap, Some err4), parsedPayload'), w0) \<Rightarrow>
            (Return (Some err4), w0)
        | (Return ((modifiedInputsParamForPost, outputsMap, None), parsedPayload'), w0) \<Rightarrow>
        (case post P ''/v1/workflows/approval/status'' parsedPayload' w0 of
          ((resp, Some err), w1) \<Rightarrow>
            (case writeStatus P ''FAILED'' (callback_failure_message P err)
                    (print_api_failure P err resp w1) of
               (Some ferr, w2) \<Rightarrow> (Return (Some ferr), w2)
             | (None, w2) \<Rightarrow> (Return (Some err), w2))
        | ((resp, None), w1) \<Rightarrow>
        (case processApprovalStatus P approvalStatus approverUserName respondedOn comments w1 of
          ((jobStatus, Some err2), w2) \<Rightarrow> (Return (Some err2), w2)
        | ((jobStatus, None), w2) \<Rightarrow>
            callback_finish P jobStatus modifiedInputsParamForPost outputsMap comments w2))))))))"

definition cancel :: "platform \<Rightarrow> world \<Rightarrow> error option \<times> world" where
  "cancel P w =
     (let cancellationReason = Getenv w ''CANCELLATION_REASON'' in
      if cancellationReason = ''''
      then (Some (Errorf ''CANCELLATION_REASON environment variable missing''), w)
      else
        let (body, w0) =
              (if cancellationReason = ''CANCELLED''
               then ([(''status'', VString ''UPDATE_MANUAL_APPROVAL_STATUS_ABORTED'')],
                     Println ''Cancelling the manual approval request''
                       (Println ''Workflow aborted by user'' w))
               else ([(''status'', VString ''UPDATE_MANUAL_APPROVAL_STATUS_TIMED_OUT'')],
                     Println ''Workflow approval response was not received within allotted time.''
                       (Println ''Workflow timed out'' w)))
        in case post P ''/v1/workflows/approval/status'' body w0 of
             ((resp, Some err), w1) \<Rightarrow> (Some err, print_api_failure P err resp w1)
           | ((resp, None), w1) \<Rightarrow> (None, w1))"

text \<open>\<^verbatim>\<open>Run\<close> selects the handler by the \<^verbatim>\<open>Handler\<close> field of the \<^verbatim>\<open>Config\<close>.\<close>

definition Run :: "platform \<Rightarrow> string \<Rightarrow> world \<Rightarrow> error option outcome \<times> world" where
  "Run P Handler w =
     (if Handler = ''init'' then (case init P w of (r, w') \<Rightarrow> (Return r, w'))
      else if Handler = ''callback'' then callback P w
      else if Handler = ''cancel'' then (case cancel P w of (r, w') \<Rightarrow> (Return r, w'))
      else (Return (Some (Errorf (''unsupported handler type: '' @ Handler))), w))"

section \<open>Vocabulary of the properties\<close>

text \<open>
  The request that \<^verbatim>\<open>post\<close> hands to the client, when it gets that far: the steps of
  \<^verbatim>\<open>post\<close> before \<^verbatim>\<open>k.Client.Do\<close>.
\<close>

definition outgoing_request ::
  "platform \<Rightarrow> string \<Rightarrow> (string \<times> go_value) list \<Rightarrow> world \<Rightarrow> http_request option" where
  "outgoing_request P apiPath requestBody w =
     (case defaultConfig w of
        (apiUrl, apiToken, Some err) \<Rightarrow> None
      | (apiUrl, apiToken, None) \<Rightarrow>
        (case url_JoinPath P apiUrl apiPath of
           Inl err \<Rightarrow> None
         | Inr requestURL \<Rightarrow>
           (case json_Marshal P (VMap requestBody) of
              Inl err \<Rightarrow> None
            | Inr body \<Rightarrow>
              (case http_NewRequest_error P ''POST'' requestURL of
                 Some err \<Rightarrow> None
               | None \<Rightarrow> Some (new_request requestURL apiToken body)))))"

text \<open>The text of a boolean flag of \<^verbatim>\<open>init\<close> after its default.\<close>

definition flag_text :: "world \<Rightarrow> string \<Rightarrow> string" where
  "flag_text w name = (if Getenv w name = '''' then ''false'' else Getenv w name)"

text \<open>An entry of \<^verbatim>\<open>inputs\<close>: its name, its value, and the entry as it is sent.\<close>

definition is_string :: "go_value \<Rightarrow> bool" where
  "is_string v = (case v of VString s \<Rightarrow> True | _ \<Rightarrow> False)"

definition is_int :: "go_value \<Rightarrow> bool" where
  "is_int v = (case v of VInt i \<Rightarrow> True | _ \<Rightarrow> False)"

definition entry_name :: "go_value \<Rightarrow> go_value" where
  "entry_name x = (case x of VMap ip \<Rightarrow> index ip ''name'' | _ \<Rightarrow> VNil)"

definition entry_value :: "go_value \<Rightarrow> go_value" where
  "entry_value x = (case x of VMap ip \<Rightarrow> index ip ''value'' | _ \<Rightarrow> VNil)"

definition named_object :: "go_value \<Rightarrow> bool" where
  "named_object x = (case x of VMap ip \<Rightarrow> is_string (index ip ''name'') | _ \<Rightarrow> False)"

definition well_formed_entry :: "go_value \<Rightarrow> bool" where
  "well_formed_entry x = (named_object x \<and> \<not> is_int (entry_value x))"

definition coerced_entry :: "platform \<Rightarrow> go_value \<Rightarrow> go_value" where
  "coerced_entry P x =
     (case x of
        VMap ip \<Rightarrow>
          (case interfaceToString P (index ip ''value'') of
             Return s \<Rightarrow> VMap (AList.update ''value'' (VString s) ip)
           | Panic p \<Rightarrow> x)
      | _ \<Rightarrow> x)"

text \<open>The value of the last entry of the list that has the name \<open>n\<close>.\<close>

definition last_named :: "string \<Rightarrow> go_value list \<Rightarrow> go_value option" where
  "last_named n xs =
     (case filter (\<lambda>x. entry_name x = VString n) (rev xs) of
        [] \<Rightarrow> None
      | x # _ \<Rightarrow> Some (entry_value x))"

text \<open>
  The values that \<^verbatim>\<open>json.Unmarshal\<close> stores in an \<^verbatim>\<open>interface{}\<close>: \<^verbatim>\<open>nil\<close>,
  \<^verbatim>\<open>bool\<close>, \<^verbatim>\<open>float64\<close>, \<^verbatim>\<open>string\<close>, \<^verbatim>\<open>[]interface{}\<close> and
  \<^verbatim>\<open>map[string]interface{}\<close> of such values.
\<close>

fun json_value :: "go_value \<Rightarrow> bool" where
  "json_value (VInt i) = False"
| "json_value (VStrings xs) = False"
| "json_value (VSlice xs) = list_all json_value xs"
| "json_value (VMap m) = list_all (\<lambda>kv. json_value (snd kv)) m"
| "json_value v = True"

text \<open>
  A decoded payload that lacks one of the four text fields or has it with another type, or
  whose \<^verbatim>\<open>inputs\<close> is neither \<^verbatim>\<open>null\<close> nor an array of objects with a string
  \<^verbatim>\<open>name\<close>.
\<close>

definition malformed_payload :: "(string \<times> go_value) list \<Rightarrow> bool" where
  "malformed_payload m =
     (\<not> is_string (index m ''status'') \<or> \<not> is_string (index m ''comments'')
      \<or> \<not> is_string (index m ''respondedOn'') \<or> \<not> is_string (index m ''userName'')
      \<or> (case index m ''inputs'' of
            VNil \<Rightarrow> False
          | VSlice xs \<Rightarrow> \<not> list_all named_object xs
          | _ \<Rightarrow> True))"

text \<open>The world after a request has been handed to the client.\<close>

definition posted :: "world \<Rightarrow> http_request \<Rightarrow> world" where
  "posted w req = w\<lparr>requests := requests w @ [req]\<rparr>"

text \<open>
  \<^verbatim>\<open>callback\<close> reaches its POST: \<^verbatim>\<open>PAYLOAD\<close> is set and decodes, its four text fields
  are strings, and \<^verbatim>\<open>formatInputsForPost\<close> returns without error, giving the entries to
  send, the captured outputs map and the payload to send.
\<close>

definition callback_decodes ::
  "platform \<Rightarrow> world \<Rightarrow> string \<Rightarrow> string \<Rightarrow> string \<Rightarrow> string \<Rightarrow> go_value list
     \<Rightarrow> (string \<times> go_value) list option \<Rightarrow> (string \<times> go_value) list \<Rightarrow> bool" where
  "callback_decodes P w approvalStatus comments respondedOn approverUserName
       modifiedInputsParamForPost outputsMap parsedPayload' =
     (Getenv w ''PAYLOAD'' \<noteq> '''' \<and>
      (case json_Unmarshal_map P (Getenv w ''PAYLOAD'') of
         Inl err \<Rightarrow> False
       | Inr parsedPayload \<Rightarrow>
           index parsedPayload ''status'' = VString approvalStatus \<and>
           index parsedPayload ''comments'' = VString comments \<and>
           index parsedPayload ''respondedOn'' = VString respondedOn \<and>
           index parsedPayload ''userName'' = VString approverUserName \<and>
           formatInputsForPost P parsedPayload w =
             (Return ((modifiedInputsParamForPost, outputsMap, None), parsedPayload'), w)))"

text \<open>
  \<^verbatim>\<open>post\<close> returns the response body: the request \<open>req\<close> is built, the client answers
  it with status code 200 and the body can be read.
\<close>

definition post_succeeds ::
  "platform \<Rightarrow> string \<Rightarrow> (string \<times> go_value) list \<Rightarrow> world \<Rightarrow> http_request \<Rightarrow> bool" where
  "post_succeeds P apiPath requestBody w req =
     (outgoing_request P apiPath requestBody w = Some req \<and>
      (case client_Do P req of
         Inl err \<Rightarrow> False
       | Inr resp \<Rightarrow>
         (case resp_Body resp of
            Inl err \<Rightarrow> False
          | Inr response \<Rightarrow> resp_StatusCode resp = 200)))"

text \<open>An entry of the outbound payload that the log of the input values can print.\<close>

definition loggable :: "go_value \<Rightarrow> bool" where
  "loggable x = (case x of VMap ip \<Rightarrow> is_string (index ip ''value'') | _ \<Rightarrow> False)"

text \<open>
  What \<^verbatim>\<open>writeStatus("FAILED", message)\<close> followed by \<^verbatim>\<open>return err\<close> leaves behind,
  from the world \<open>w\<close>: the status file holds the encoded record and \<open>err\<close> is returned;
  or, when the record cannot be written, the error of \<^verbatim>\<open>writeStatus\<close> is returned and
  the files are those of \<open>w\<close>.
\<close>

definition status_failure_recorded ::
  "platform \<Rightarrow> world \<Rightarrow> string \<Rightarrow> error \<Rightarrow> error option outcome \<times> world \<Rightarrow> bool" where
  "status_failure_recorded P w message err result =
     (let statusFile = Getenv w ''CLOUDBEES_STATUS'' in
      if statusFile = ''''
      then fst result = Return (Some (Errorf ''CLOUDBEES_STATUS environment variable missing''))
           \<and> files (snd result) = files w
      else
        case json_Marshal P (VMap [(''status'', VString ''FAILED''), (''message'', VString message)]) of
          Inl merr \<Rightarrow> fst result = Return (Some merr) \<and> files (snd result) = files w
        | Inr outputBytes \<Rightarrow>
          (case os_WriteFile_error P statusFile of
             Some werr \<Rightarrow>
               fst result = Return (Some (Wrapf (''failed to write to '' @ statusFile @ '': '') werr))
               \<and> files (snd result) = files w
           | None \<Rightarrow>
               fst result = Return (Some err)
               \<and> files (snd result) = (files w)(statusFile \<mapsto> outputBytes)))"

section \<open>A platform for closed examples\<close>

text \<open>
  The package's tests replace the HTTP client by a function with a fixed answer and set the
  environment by hand.  The definitions of this section do the same for the examples that
  follow the theorems: a client with one answer, a file system where every write succeeds,
  a decoder fixed on four payloads, and an encoder that agrees with \<^verbatim>\<open>encoding/json\<close> on
  the values of the examples (object keys sorted by byte, quotes, backslashes and newlines
  escaped; association lists with distinct keys).
\<close>

definition q :: "string \<Rightarrow> string" where
  "q s = [CHR 0x22] @ s @ [CHR 0x22]"

fun string_le :: "string \<Rightarrow> string \<Rightarrow> bool" where
  "string_le [] ys = True"
| "string_le (x # xs) [] = False"
| "string_le (x # xs) (y # ys) =
     (if x = y then string_le xs ys else (of_char x :: nat) < of_char y)"

fun insert_field :: "string \<times> string \<Rightarrow> (string \<times> string) list \<Rightarrow> (string \<times> string) list" where
  "insert_field f [] = [f]"
| "insert_field f (g # gs) =
     (if string_le (fst f) (fst g) then f # g # gs else g # insert_field f gs)"

definition encode_char :: "char \<Rightarrow> string" where
  "encode_char c =
     (if c = CHR 0x22 then [CHR 0x5C, CHR 0x22]
      else if c = CHR 0x5C then [CHR 0x5C, CHR 0x5C]
      else if c = CHR 0x0A then [CHR 0x5C, CHR ''n'']
      else [c])"

definition encode_string :: "string \<Rightarrow> string" where
  "encode_string s = q (concat (map encode_char s))"

fun encode :: "(64 word \<Rightarrow> string) \<Rightarrow> go_value \<Rightarrow> string" where
  "encode ff VNil = ''null''"
| "encode ff (VString s) = encode_string s"
| "encode ff (VInt i) = fmt_d (sint i)"
| "encode ff (VFloat64 f) = ff f"
| "encode ff (VBool b) = strconv_FormatBool b"
| "encode ff (VStrings xs) = ''['' @ strings_Join (map encode_string xs) '','' @ '']''"
| "encode ff (VSlice xs) = ''['' @ strings_Join (map (encode ff) xs) '','' @ '']''"
| "encode ff (VMap m) =
     ''{'' @ strings_Join
               (map (\<lambda>f. encode_string (fst f) @ '':'' @ snd f)
                  (foldr insert_field (map (\<lambda>kv. (fst kv, encode ff (snd kv))) m) []))
               '','' @ ''}''"

text \<open>The number 99.33 as a \<^verbatim>\<open>float64\<close>.\<close>

definition float_99_33 :: "64 word" where
  "float_99_33 = 0x4058D51EB851EB85"

definition test_FormatFloat :: "64 word \<Rightarrow> string" where
  "test_FormatFloat f = (if f = float_99_33 then ''99.33'' else ''0'')"

definition payload_approved :: string where
  "payload_approved =
     ''{'' @ q ''status'' @ '':'' @ q ''UPDATE_MANUAL_APPROVAL_STATUS_APPROVED'' @ '',''
     @ q ''comments'' @ '':'' @ q ''lgtm'' @ '',''
     @ q ''userName'' @ '':'' @ q ''testUserName'' @ '',''
     @ q ''respondedOn'' @ '':'' @ q ''2009-11-10T23:00:00Z'' @ '',''
     @ q ''inputs'' @ '':[{'' @ q ''name'' @ '':'' @ q ''n1'' @ '','' @ q ''value'' @ '':true,''
     @ q ''is_default'' @ '':true},{'' @ q ''name'' @ '':'' @ q ''n2'' @ '','' @ q ''value'' @ '':''
     @ q (''a'' @ [CHR 0x5C] @ ''nb'') @ '','' @ q ''is_default'' @ '':false},{''
     @ q ''name'' @ '':'' @ q ''n3'' @ '','' @ q ''value'' @ '':99.33,''
     @ q ''is_default'' @ '':false}]}''"

definition inputs_approved :: "go_value list" where
  "inputs_approved =
     [VMap [(''name'', VString ''n1''), (''value'', VBool True), (''is_default'', VBool True)],
      VMap [(''name'', VString ''n2''), (''value'', VString (''a'' @ NL @ ''b'')),
            (''is_default'', VBool False)],
      VMap [(''name'', VString ''n3''), (''value'', VFloat64 float_99_33),
            (''is_default'', VBool False)]]"

definition parsed_approved :: "(string \<times> go_value) list" where
  "parsed_approved =
     [(''status'', VString ''UPDATE_MANUAL_APPROVAL_STATUS_APPROVED''),
      (''comments'', VString ''lgtm''),
      (''userName'', VString ''testUserName''),
      (''respondedOn'', VString ''2009-11-10T23:00:00Z''),
      (''inputs'', VSlice inputs_approved)]"

definition payload_rejected :: string where
  "payload_rejected =
     ''{'' @ q ''status'' @ '':'' @ q ''UPDATE_MANUAL_APPROVAL_STATUS_REJECTED'' @ '',''
     @ q ''comments'' @ '':'' @ q '''' @ '',''
     @ q ''userName'' @ '':'' @ q ''testUserName'' @ '',''
     @ q ''respondedOn'' @ '':'' @ q ''2009-11-10T23:00:00Z'' @ ''}''"

definition parsed_rejected :: "(string \<times> go_value) list" where
  "parsed_rejected =
     [(''status'', VString ''UPDATE_MANUAL_APPROVAL_STATUS_REJECTED''),
      (''comments'', VString ''''),
      (''userName'', VString ''testUserName''),
      (''respondedOn'', VString ''2009-11-10T23:00:00Z'')]"

definition payload_unspecified :: string where
  "payload_unspecified =
     ''{'' @ q ''status'' @ '':'' @ q ''UPDATE_MANUAL_APPROVAL_STATUS_UNSPECIFIED'' @ '',''
     @ q ''comments'' @ '':'' @ q ''test comments'' @ '',''
     @ q ''userName'' @ '':'' @ q ''testUserName'' @ '',''
     @ q ''respondedOn'' @ '':'' @ q ''2009-11-10T23:00:00Z'' @ '',''
     @ q ''inputs'' @ '':null}''"

definition parsed_unspecified :: "(string \<times> go_value) list" where
  "parsed_unspecified =
     [(''status'', VString ''UPDATE_MANUAL_APPROVAL_STATUS_UNSPECIFIED''),
      (''comments'', VString ''test comments''),
      (''userName'', VString ''testUserName''),
      (''respondedOn'', VString ''2009-11-10T23:00:00Z''),
      (''inputs'', VNil)]"

text \<open>A decoded payload in which two entries of \<^verbatim>\<open>inputs\<close> have the same name.\<close>

definition inputs_repeated :: "go_value list" where
  "inputs_repeated =
     [VMap [(''name'', VString ''n1''), (''value'', VBool True)],
      VMap [(''name'', VString ''n1''), (''value'', VString ''x'')]]"

definition parsed_repeated :: "(string \<times> go_value) list" where
  "parsed_repeated =
     [(''status'', VString ''UPDATE_MANUAL_APPROVAL_STATUS_APPROVED''),
      (''comments'', VString ''lgtm''),
      (''userName'', VString ''testUserName''),
      (''respondedOn'', VString ''2009-11-10T23:00:00Z''),
      (''inputs'', VSlice inputs_repeated)]"

definition test_Unmarshal_map :: "string \<Rightarrow> error + (string \<times> go_value) list" where
  "test_Unmarshal_map s =
     (if s = payload_approved then Inr parsed_approved
      else if s = payload_rejected then Inr parsed_rejected
      else if s = payload_unspecified then Inr parsed_unspecified
      else if s = ''{}'' then Inr []
      else Inl (LibError ''unexpected end of JSON input''))"

definition test_Unmarshal_response :: "string \<Rightarrow> error + Approvers list" where
  "test_Unmarshal_response s =
     (if s = ''{}'' then Inr [] else Inl (LibError ''unexpected end of JSON input''))"

definition test_platform :: "http_response \<Rightarrow> platform" where
  "test_platform resp =
     \<lparr>json_Marshal = (\<lambda>v. Inr (encode test_FormatFloat v)),
      json_Unmarshal_map = test_Unmarshal_map,
      json_Unmarshal_response = test_Unmarshal_response,
      url_JoinPath = (\<lambda>base path. Inr (base @ path)),
      http_NewRequest_error = (\<lambda>m u. None),
      client_Do = (\<lambda>req. Inr resp),
      os_WriteFile_error = (\<lambda>name. None),
      filepath_Join = (\<lambda>dir name. dir @ ''/'' @ name),
      goldmark_Convert = (\<lambda>s. Inr (''<p>'' @ s @ ''</p>'' @ NL)),
      strconv_FormatFloat = test_FormatFloat,
      strconv_Quote = q,
      fmt_s = (\<lambda>v. ''%!s('' @ type_name v @ '')'')\<rparr>"

definition response_200 :: http_response where
  "response_200 = \<lparr>resp_StatusCode = 200, resp_Status = ''200 OK'', resp_Body = Inr ''{}''\<rparr>"

definition response_500 :: http_response where
  "response_500 =
     \<lparr>resp_StatusCode = 500, resp_Status = ''500 Internal Server Error'',
      resp_Body = Inr ''wrong parameter''\<rparr>"

definition test_world :: "(string \<times> string) list \<Rightarrow> world" where
  "test_world vars =
     \<lparr>env = (\<lambda>name. case map_of vars name of None \<Rightarrow> '''' | Some v \<Rightarrow> v),
      files = Map.empty, printed = [], stdout = [], requests = []\<rparr>"

text \<open>The environments of the package's tests, for each handler.\<close>

definition world_init :: world where
  "world_init =
     test_world [(''URL'', ''http://test.com''), (''API_TOKEN'', ''test''),
                 (''CLOUDBEES_STATUS'', ''/tmp/test-status-out''),
                 (''APPROVERS'', ''123,user@mail.com''), (''INSTRUCTIONS'', ''check it'')]"

definition world_callback :: "string \<Rightarrow> world" where
  "world_callback payload =
     test_world [(''URL'', ''http://test.com''), (''API_TOKEN'', ''test''),
                 (''CLOUDBEES_STATUS'', ''/tmp/test-status-out''),
                 (''CLOUDBEES_OUTPUTS'', ''/tmp/test-outputs''),
                 (''PAYLOAD'', payload)]"

definition world_callback_without_outputs :: "string \<Rightarrow> world" where
  "world_callback_without_outputs payload =
     test_world [(''URL'', ''http://test.com''), (''API_TOKEN'', ''test''),
                 (''CLOUDBEES_STATUS'', ''/tmp/test-status-out''),
                 (''PAYLOAD'', payload)]"

definition world_cancel :: "string \<Rightarrow> world" where
  "world_cancel reason =
     test_world [(''URL'', ''http://test.com''), (''API_TOKEN'', ''test''),
                 (''CANCELLATION_REASON'', reason)]"

text \<open>An environment of \<^verbatim>\<open>init\<close> whose first flag does not parse.\<close>

definition world_init_bad_flag :: world where
  "world_init_bad_flag =
     test_world [(''URL'', ''http://test.com''), (''API_TOKEN'', ''test''),
                 (''CLOUDBEES_STATUS'', ''/tmp/test-status-out''),
                 (''DISALLOW_LAUNCHED_BY_USER'', ''invalid boolean'')]"

text \<open>The request that \<^verbatim>\<open>callback\<close> and \<^verbatim>\<open>cancel\<close> send in these environments.\<close>

definition status_request :: "(string \<times> go_value) list \<Rightarrow> http_request" where
  "status_request body =
     new_request ''http://test.com/v1/workflows/approval/status'' ''test''
       (encode test_FormatFloat (VMap body))"

text \<open>The request that \<^verbatim>\<open>init\<close> sends in \<open>world_init\<close>.\<close>

definition init_request :: http_request where
  "init_request =
     new_request ''http://test.com/v1/workflows/approval'' ''test''
       (encode test_FormatFloat
          (VMap (init_body ''123,user@mail.com'' ''check it'' '''' False False)))"

text \<open>What the approved payload becomes: the entries sent, the captured map, the payload sent.\<close>

definition sent_inputs_approved :: "go_value list" where
  "sent_inputs_approved =
     [VMap [(''name'', VString ''n1''), (''value'', VString ''true''), (''is_default'', VBool True)],
      VMap [(''name'', VString ''n2''), (''value'', VString (''a'' @ NL @ ''b'')),
            (''is_default'', VBool False)],
      VMap [(''name'', VString ''n3''), (''value'', VString ''99.33''),
            (''is_default'', VBool False)]]"

definition outputs_approved :: "(string \<times> go_value) list" where
  "outputs_approved =
     [(''n1'', VBool True), (''n2'', VString (''a'' @ NL @ ''b'')), (''n3'', VFloat64 float_99_33)]"

definition sent_approved :: "(string \<times> go_value) list" where
  "sent_approved =
     [(''status'', VString ''UPDATE_MANUAL_APPROVAL_STATUS_APPROVED''),
      (''comments'', VString ''lgtm''),
      (''userName'', VString ''testUserName''),
      (''respondedOn'', VString ''2009-11-10T23:00:00Z''),
      (''inputs'', VSlice sent_inputs_approved)]"

text \<open>
  The text of the error of \<^verbatim>\<open>post\<close> for the answer \<^verbatim>\<open>500 Internal Server Error\<close>, and
  the same text inside a JSON string.
\<close>

definition text_500 :: "string \<Rightarrow> string" where
  "text_500 requestURL =
     ''failed to send event: '' @ NL @ ''POST '' @ requestURL @ NL
     @ ''HTTP/500 500 Internal Server Error'' @ NL"

definition json_text_500 :: "string \<Rightarrow> string" where
  "json_text_500 requestURL =
     ''failed to send event: '' @ [CHR 0x5C] @ ''nPOST '' @ requestURL @ [CHR 0x5C]
     @ ''nHTTP/500 500 Internal Server Error'' @ [CHR 0x5C] @ ''n''"

section \<open>Evaluation of the examples\<close>

lemmas world_defs = world_init_def world_callback_def world_callback_without_outputs_def
  world_cancel_def test_world_def Getenv_def

lemmas platform_defs = test_platform_def response_200_def response_500_def
  test_Unmarshal_map_def test_Unmarshal_response_def

lemmas payload_defs = payload_approved_def payload_rejected_def payload_unspecified_def q_def
  parsed_approved_def parsed_rejected_def parsed_unspecified_def inputs_approved_def

lemmas encode_defs = encode_string_def encode_char_def q_def strconv_FormatBool_def
  test_FormatFloat_def float_99_33_def

lemmas sent_defs = sent_inputs_approved_def outputs_approved_def sent_approved_def

lemma decodes_approved:
  "Getenv w ''PAYLOAD'' = payload_approved \<Longrightarrow>
   callback_decodes (test_platform r) w
     ''UPDATE_MANUAL_APPROVAL_STATUS_APPROVED'' ''lgtm'' ''2009-11-10T23:00:00Z''
     ''testUserName'' sent_inputs_approved (Some outputs_approved) sent_approved"
  by (simp add: callback_decodes_def platform_defs payload_defs index_def
        formatInputsForPost_def sent_defs encode_defs)

section \<open>Value coercion\<close>




section \<open>The input values of a callback\<close>

lemma interfaceToString_returns:
  "\<not> is_int v \<Longrightarrow> \<exists>s. interfaceToString P v = Return s"
  by (cases v) (simp_all add: is_int_def)

lemma formatInputsForPost_loop_result:
  "list_all well_formed_entry xs \<Longrightarrow>
   \<exists>outs. formatInputsForPost_loop P xs acc = Return (map (coerced_entry P) xs, outs) \<and>
     (\<forall>n. map_of outs n = (case last_named n xs of None \<Rightarrow> map_of acc n | Some v \<Rightarrow> Some v))"
proof (induction xs arbitrary: acc)
  case Nil
  then show ?case by (simp add: last_named_def)
next
  case (Cons x xs)
  from Cons.prems have wf: "well_formed_entry x" and rest: "list_all well_formed_entry xs"
    by simp_all
  from wf obtain ip n where x: "x = VMap ip" and n: "index ip ''name'' = VString n"
    and ni: "\<not> is_int (index ip ''value'')"
    by (auto simp: well_formed_entry_def named_object_def is_string_def entry_value_def
             split: go_value.splits)
  from interfaceToString_returns[OF ni]
  obtain s where s: "interfaceToString P (index ip ''value'') = Return s" by blast
  from Cons.IH[OF rest, of "AList.update n (index ip ''value'') acc"]
  obtain outs where
    l: "formatInputsForPost_loop P xs (AList.update n (index ip ''value'') acc)
          = Return (map (coerced_entry P) xs, outs)"
    and m: "\<And>k. map_of outs k = (case last_named k xs of
               None \<Rightarrow> map_of (AList.update n (index ip ''value'') acc) k | Some v \<Rightarrow> Some v)"
    by blast
  have "formatInputsForPost_loop P (x # xs) acc = Return (map (coerced_entry P) (x # xs), outs)"
    using x n s l by (simp add: coerced_entry_def)
  moreover have "map_of outs k =
      (case last_named k (x # xs) of None \<Rightarrow> map_of acc k | Some v \<Rightarrow> Some v)" for k
    using m[of k] x n
    by (auto simp: last_named_def entry_name_def entry_value_def update_conv'
             split: list.splits)
  ultimately show ?case by blast
qed

lemma last_named_nth:
  assumes i: "i < length xs" and n: "entry_name (xs ! i) = VString n"
    and later: "\<forall>j. i < j \<and> j < length xs \<longrightarrow> entry_name (xs ! j) \<noteq> VString n"
  shows "last_named n xs = Some (entry_value (xs ! i))"
proof -
  have xs: "xs = take i xs @ xs ! i # drop (Suc i) xs"
    using i by (simp add: id_take_nth_drop)
  have none: "filter (\<lambda>x. entry_name x = VString n) (rev (drop (Suc i) xs)) = []"
  proof -
    have "entry_name x \<noteq> VString n" if "x \<in> set (drop (Suc i) xs)" for x
    proof -
      from that obtain k where k: "k < length (drop (Suc i) xs)" and x: "x = drop (Suc i) xs ! k"
        by (auto simp: in_set_conv_nth)
      from k have "Suc i + k < length xs" by simp
      moreover have "x = xs ! (Suc i + k)" using x k by simp
      ultimately show ?thesis using later by auto
    qed
    then show ?thesis by (simp add: filter_empty_conv)
  qed
  have "rev xs = rev (drop (Suc i) xs) @ xs ! i # rev (take i xs)"
    by (subst xs) simp
  then have "filter (\<lambda>x. entry_name x = VString n) (rev xs)
           = xs ! i # filter (\<lambda>x. entry_name x = VString n) (rev (take i xs))"
    using none n by simp
  then show ?thesis by (simp add: last_named_def)
qed

lemma coerced_entry_fields:
  assumes "well_formed_entry x"
  shows "\<exists>s. interfaceToString P (entry_value x) = Return s \<and>
             entry_value (coerced_entry P x) = VString s \<and>
             entry_name (coerced_entry P x) = entry_name x"
proof -
  from assms obtain ip where x: "x = VMap ip" and ni: "\<not> is_int (index ip ''value'')"
    by (auto simp: well_formed_entry_def named_object_def entry_value_def split: go_value.splits)
  from interfaceToString_returns[OF ni]
  obtain s where s: "interfaceToString P (index ip ''value'') = Return s" by blast
  show ?thesis using x s
    by (simp add: coerced_entry_def entry_value_def entry_name_def index_def update_conv')
qed

text \<open>
  Claim C1, as amended.  Let the payload hold a non-empty \<^verbatim>\<open>inputs\<close> list whose entries
  are objects with a string \<^verbatim>\<open>name\<close> and a value that is not an \<^verbatim>\<open>int\<close> (a string, a
  \<^verbatim>\<open>float64\<close>, a boolean, or any other decoded JSON value), and let the changed
  payload be encodable.  Then \<^verbatim>\<open>formatInputsForPost\<close> returns without error; the
  returned outputs map holds, under each name, the original value (with its dynamic type)
  of the last entry with that name, so the original value of every entry whose name is
  not used again by a later entry; and every entry of the outbound payload keeps its name
  and has its value replaced by the string that \<^verbatim>\<open>interfaceToString\<close> gives.
\<close>

theorem formatInputsForPost_last_original_kept:
  assumes inputs: "index parsedPayload ''inputs'' = VSlice inputs"
    and nonempty: "inputs \<noteq> []"
    and wf: "list_all well_formed_entry inputs"
    and marshal: "json_Marshal P (VMap (AList.update ''inputs''
                    (VSlice (map (coerced_entry P) inputs)) parsedPayload)) = Inr bytes"
  shows "\<exists>outputsMap.
           formatInputsForPost P parsedPayload w =
             (Return ((map (coerced_entry P) inputs, Some outputsMap, None),
                      AList.update ''inputs'' (VSlice (map (coerced_entry P) inputs)) parsedPayload),
              w) \<and>
           (\<forall>n. map_of outputsMap n = last_named n inputs) \<and>
           (\<forall>i n. i < length inputs \<and> entry_name (inputs ! i) = VString n \<and>
                  (\<forall>j. i < j \<and> j < length inputs \<longrightarrow> entry_name (inputs ! j) \<noteq> VString n)
                  \<longrightarrow> map_of outputsMap n = Some (entry_value (inputs ! i))) \<and>
           (\<forall>x \<in> set inputs.
              \<exists>s. interfaceToString P (entry_value x) = Return s \<and>
                  entry_value (coerced_entry P x) = VString s \<and>
                  entry_name (coerced_entry P x) = entry_name x)"
proof -
  from formatInputsForPost_loop_result[OF wf, of P "[]"]
  obtain outs where
    l: "formatInputsForPost_loop P inputs [] = Return (map (coerced_entry P) inputs, outs)"
    and m0: "\<And>n. map_of outs n =
               (case last_named n inputs of None \<Rightarrow> map_of [] n | Some v \<Rightarrow> Some v)"
    by blast
  have m: "map_of outs n = last_named n inputs" for n
    using m0[of n] by (cases "last_named n inputs") simp_all
  have r: "formatInputsForPost P parsedPayload w =
             (Return ((map (coerced_entry P) inputs, Some outs, None),
                      AList.update ''inputs'' (VSlice (map (coerced_entry P) inputs)) parsedPayload),
              w)"
    using inputs nonempty l marshal by (simp add: formatInputsForPost_def)
  have c: "\<forall>x \<in> set inputs.
              \<exists>s. interfaceToString P (entry_value x) = Return s \<and>
                  entry_value (coerced_entry P x) = VString s \<and>
                  entry_name (coerced_entry P x) = entry_name x"
    using wf coerced_entry_fields by (auto simp: list_all_iff)
  have k: "\<forall>i n. i < length inputs \<and> entry_name (inputs ! i) = VString n \<and>
                  (\<forall>j. i < j \<and> j < length inputs \<longrightarrow> entry_name (inputs ! j) \<noteq> VString n)
                  \<longrightarrow> map_of outs n = Some (entry_value (inputs ! i))"
    using m last_named_nth by auto
  from r m c k show ?thesis by blast
qed

text \<open>
  The statement at a payload with a boolean, a string and a number: the outputs map keeps
  \<^verbatim>\<open>true\<close>, the string and 99.33, the outbound entries carry \<^verbatim>\<open>"true"\<close>, the string
  and \<^verbatim>\<open>"99.33"\<close>.
\<close>

theorem formatInputsForPost_last_original_kept_witness:
  "index parsed_approved ''inputs'' = VSlice inputs_approved \<and> inputs_approved \<noteq> [] \<and>
   list_all well_formed_entry inputs_approved \<and>
   (\<exists>outputsMap.
      fst (formatInputsForPost (test_platform response_200) parsed_approved (test_world [])) =
        Return ((map (coerced_entry (test_platform response_200)) inputs_approved,
                 Some outputsMap, None),
                AList.update ''inputs''
                  (VSlice (map (coerced_entry (test_platform response_200)) inputs_approved))
                  parsed_approved) \<and>
      map_of outputsMap ''n1'' = Some (VBool True) \<and>
      map_of outputsMap ''n2'' = Some (VString (''a'' @ NL @ ''b'')) \<and>
      map_of outputsMap ''n3'' = Some (VFloat64 float_99_33)) \<and>
   map (coerced_entry (test_platform response_200)) inputs_approved =
     [VMap [(''name'', VString ''n1''), (''value'', VString ''true''), (''is_default'', VBool True)],
      VMap [(''name'', VString ''n2''), (''value'', VString (''a'' @ NL @ ''b'')),
            (''is_default'', VBool False)],
      VMap [(''name'', VString ''n3''), (''value'', VString ''99.33''),
            (''is_default'', VBool False)]]"
proof -
  let ?P = "test_platform response_200"
  have h1: "index parsed_approved ''inputs'' = VSlice inputs_approved"
    by (simp add: parsed_approved_def index_def)
  have h2: "inputs_approved \<noteq> []"
    by (simp add: inputs_approved_def)
  have h3: "list_all well_formed_entry inputs_approved"
    by (simp add: inputs_approved_def well_formed_entry_def named_object_def is_string_def
          is_int_def entry_value_def index_def)
  have h4: "json_Marshal ?P (VMap (AList.update ''inputs''
               (VSlice (map (coerced_entry ?P) inputs_approved)) parsed_approved))
            = Inr (encode test_FormatFloat (VMap (AList.update ''inputs''
               (VSlice (map (coerced_entry ?P) inputs_approved)) parsed_approved)))"
    by (simp add: test_platform_def)
  have l: "last_named ''n1'' inputs_approved = Some (VBool True)"
    "last_named ''n2'' inputs_approved = Some (VString (''a'' @ NL @ ''b''))"
    "last_named ''n3'' inputs_approved = Some (VFloat64 float_99_33)"
    by (simp_all add: last_named_def inputs_approved_def entry_name_def entry_value_def index_def)
  have c: "map (coerced_entry ?P) inputs_approved =
     [VMap [(''name'', VString ''n1''), (''value'', VString ''true''), (''is_default'', VBool True)],
      VMap [(''name'', VString ''n2''), (''value'', VString (''a'' @ NL @ ''b'')),
            (''is_default'', VBool False)],
      VMap [(''name'', VString ''n3''), (''value'', VString ''99.33''),
            (''is_default'', VBool False)]]"
    by (simp add: inputs_approved_def coerced_entry_def index_def strconv_FormatBool_def
          test_platform_def test_FormatFloat_def)
  from formatInputsForPost_last_original_kept [OF h1 h2 h3 h4, of "test_world []"]
  obtain outputsMap where
    "formatInputsForPost ?P parsed_approved (test_world []) =
       (Return ((map (coerced_entry ?P) inputs_approved, Some outputsMap, None),
                AList.update ''inputs'' (VSlice (map (coerced_entry ?P) inputs_approved))
                  parsed_approved), test_world [])"
    and "\<forall>n. map_of outputsMap n = last_named n inputs_approved"
    by blast
  with l have "fst (formatInputsForPost ?P parsed_approved (test_world [])) =
        Return ((map (coerced_entry ?P) inputs_approved, Some outputsMap, None),
                AList.update ''inputs'' (VSlice (map (coerced_entry ?P) inputs_approved))
                  parsed_approved) \<and>
      map_of outputsMap ''n1'' = Some (VBool True) \<and>
      map_of outputsMap ''n2'' = Some (VString (''a'' @ NL @ ''b'')) \<and>
      map_of outputsMap ''n3'' = Some (VFloat64 float_99_33)"
    by simp
  then show ?thesis using h1 h2 h3 c by blast
qed

text \<open>
  The claim as it was stated (the original value of every entry is in the returned outputs
  map under the entry's name) is false when two entries share a name: of the entries
  \<^verbatim>\<open>{name: n1, value: true}\<close> and \<^verbatim>\<open>{name: n1, value: "x"}\<close> the outputs map keeps
  only \<^verbatim>\<open>"x"\<close>; the boolean of the first entry is in it under no name.
\<close>

theorem formatInputsForPost_repeated_name_counterexample:
  "fst (formatInputsForPost (test_platform response_200) parsed_repeated (test_world [])) =
     Return (([VMap [(''name'', VString ''n1''), (''value'', VString ''true'')],
               VMap [(''name'', VString ''n1''), (''value'', VString ''x'')]],
              Some [(''n1'', VString ''x'')], None),
             [(''status'', VString ''UPDATE_MANUAL_APPROVAL_STATUS_APPROVED''),
              (''comments'', VString ''lgtm''),
              (''userName'', VString ''testUserName''),
              (''respondedOn'', VString ''2009-11-10T23:00:00Z''),
              (''inputs'', VSlice
                 [VMap [(''name'', VString ''n1''), (''value'', VString ''true'')],
                  VMap [(''name'', VString ''n1''), (''value'', VString ''x'')]])])"
  by (simp add: formatInputsForPost_def parsed_repeated_def inputs_repeated_def index_def
        strconv_FormatBool_def test_platform_def)

section \<open>The POST helper and the status record\<close>

lemma post_reached:
  "outgoing_request P apiPath requestBody w = Some req \<Longrightarrow>
   post P apiPath requestBody w =
     (case client_Do P req of
        Inl err \<Rightarrow> (('''', Some err), posted w req)
      | Inr resp \<Rightarrow>
        (case resp_Body resp of
           Inl err \<Rightarrow> (('''', Some err), posted w req)
         | Inr response \<Rightarrow>
           if resp_StatusCode resp \<noteq> 200
           then ((response, Some (send_event_error (req_url req) resp)), posted w req)
           else ((response, None), posted w req)))"
  by (auto simp: post_def outgoing_request_def posted_def new_request_def Let_def
           split: prod.splits option.splits sum.splits)

lemma post_answered:
  assumes "outgoing_request P apiPath requestBody w = Some req"
    and "client_Do P req = Inr resp" and "resp_Body resp = Inr response"
  shows "post P apiPath requestBody w =
           ((response, if resp_StatusCode resp \<noteq> 200
                       then Some (send_event_error (req_url req) resp) else None),
            posted w req)"
  using assms by (simp add: post_reached)

lemma outgoing_request_body:
  "outgoing_request P apiPath requestBody w = Some req \<Longrightarrow>
   json_Marshal P (VMap requestBody) = Inr (req_body req)"
  by (auto simp: outgoing_request_def new_request_def split: prod.splits option.splits sum.splits)

lemma outgoing_request_env:
  "env w' = env w \<Longrightarrow>
   outgoing_request P apiPath requestBody w' = outgoing_request P apiPath requestBody w"
  by (simp add: outgoing_request_def defaultConfig_def Getenv_def Let_def)

lemma post_keeps:
  "files (snd (post P apiPath requestBody w)) = files w"
  "env (snd (post P apiPath requestBody w)) = env w"
  "printed (snd (post P apiPath requestBody w)) = printed w"
  "stdout (snd (post P apiPath requestBody w)) = stdout w"
  by (auto simp: post_def Let_def split: prod.splits option.splits sum.splits)

lemma writeStatus_written:
  assumes "Getenv w ''CLOUDBEES_STATUS'' = statusFile" and "statusFile \<noteq> ''''"
    and "json_Marshal P (VMap [(''status'', VString status), (''message'', VString message)])
           = Inr outputBytes"
    and "os_WriteFile_error P statusFile = None"
  shows "writeStatus P status message w = (None, w\<lparr>files := (files w)(statusFile \<mapsto> outputBytes)\<rparr>)"
  using assms by (simp add: writeStatus_def os_WriteFile_def)

lemma writeStatus_keeps:
  "env (snd (writeStatus P status message w)) = env w"
  "printed (snd (writeStatus P status message w)) = printed w"
  "stdout (snd (writeStatus P status message w)) = stdout w"
  "requests (snd (writeStatus P status message w)) = requests w"
  by (auto simp: writeStatus_def os_WriteFile_def Let_def split: if_splits sum.splits option.splits)

lemma Getenv_simps [simp]:
  "Getenv (posted w req) = Getenv w"
  "Getenv (Printf s w) = Getenv w"
  "Getenv (Println s w) = Getenv w"
  "Getenv (print_api_failure P err resp w) = Getenv w"
  by (auto simp: Getenv_def posted_def Printf_def Println_def print_api_failure_def)

lemma post_succeeds_post:
  "post_succeeds P apiPath requestBody w req \<Longrightarrow>
   \<exists>response. post P apiPath requestBody w = ((response, None), posted w req)"
  by (auto simp: post_succeeds_def post_reached split: sum.splits)

lemma status_failure_recordedI:
  assumes "files w1 = files w" and "Getenv w1 = Getenv w"
  shows "status_failure_recorded P w message err
           (case writeStatus P ''FAILED'' message w1 of
              (Some ferr, w2) \<Rightarrow> (Return (Some ferr), w2)
            | (None, w2) \<Rightarrow> (Return (Some err), w2))"
  using assms
  by (simp add: status_failure_recorded_def writeStatus_def os_WriteFile_def Let_def
           split: sum.splits option.splits)

lemma print_api_failure_fields [simp]:
  "files (print_api_failure P err resp w) = files w"
  "requests (print_api_failure P err resp w) = requests w"
  "stdout (print_api_failure P err resp w) = stdout w"
  "env (print_api_failure P err resp w) = env w"
  "printed (print_api_failure P err resp w) = printed w @
     [''ERROR: API call failed with error: '' @ [CHR 0x27] @ error_text P err @ [CHR 0x27] @ NL,
      ''ERROR: API response: '' @ [CHR 0x27] @ resp @ [CHR 0x27] @ NL]"
  by (simp_all add: print_api_failure_def Printf_def)

lemma posted_fields [simp]:
  "files (posted w req) = files w"
  "requests (posted w req) = requests w @ [req]"
  "stdout (posted w req) = stdout w"
  "env (posted w req) = env w"
  "printed (posted w req) = printed w"
  by (simp_all add: posted_def)

lemma Printf_fields [simp]:
  "files (Printf s w) = files w"
  "requests (Printf s w) = requests w"
  "stdout (Printf s w) = stdout w"
  "env (Printf s w) = env w"
  "printed (Printf s w) = printed w @ [s]"
  by (simp_all add: Printf_def)

lemma writeStatus_result_fields:
  "printed (snd (case writeStatus P s m w1 of
              (Some ferr, w2) \<Rightarrow> (Return (Some ferr), w2)
            | (None, w2) \<Rightarrow> (Return (Some err), w2))) = printed w1"
  "requests (snd (case writeStatus P s m w1 of
              (Some ferr, w2) \<Rightarrow> (Return (Some ferr), w2)
            | (None, w2) \<Rightarrow> (Return (Some err), w2))) = requests w1"
  using writeStatus_keeps[of P s m w1]
  by (auto split: prod.splits option.splits)

lemma Println_fields [simp]:
  "files (Println s w) = files w"
  "requests (Println s w) = requests w"
  "stdout (Println s w) = stdout w"
  "env (Println s w) = env w"
  "printed (Println s w) = printed w @ [s @ NL]"
  by (simp_all add: Println_def)

lemma post_reached_world:
  "outgoing_request P apiPath requestBody w = Some req \<Longrightarrow>
   snd (post P apiPath requestBody w) = posted w req"
  by (simp add: post_reached split: sum.splits)

section \<open>A request that is answered with a failure\<close>

lemma init_failed_request:
  assumes d: "strconv_ParseBool (flag_text w ''DISALLOW_LAUNCHED_BY_USER'') = Inr d"
    and n: "strconv_ParseBool (flag_text w ''NOTIFY_ALL_ELIGIBLE_USERS'') = Inr n"
    and og: "outgoing_request P ''/v1/workflows/approval''
               (init_body (Getenv w ''APPROVERS'') (Getenv w ''INSTRUCTIONS'') (Getenv w ''INPUTS'') d n) w
             = Some req"
    and r: "client_Do P req = Inr r" and b: "resp_Body r = Inr response"
    and c: "resp_StatusCode r \<noteq> 200"
  shows "Run P ''init'' w =
           (case writeStatus P ''FAILED'' (init_failure_message P (send_event_error (req_url req) r))
                   (print_api_failure P (send_event_error (req_url req) r) response (posted w req)) of
              (Some ferr, w2) \<Rightarrow> (Return (Some ferr), w2)
            | (None, w2) \<Rightarrow> (Return (Some (send_event_error (req_url req) r)), w2))"
proof -
  have p: "post P ''/v1/workflows/approval''
             (init_body (Getenv w ''APPROVERS'') (Getenv w ''INSTRUCTIONS'') (Getenv w ''INPUTS'') d n) w
           = ((response, Some (send_event_error (req_url req) r)), posted w req)"
    using post_answered[OF og r b] c by simp
  show ?thesis
    using d n p
    by (simp add: Run_def init_def flag_text_def Let_def split: prod.splits option.splits)
qed

lemma callback_failed_request:
  assumes dec: "callback_decodes P w st cm ro un mods outs m'"
    and og: "outgoing_request P ''/v1/workflows/approval/status'' m' w = Some req"
    and r: "client_Do P req = Inr r" and b: "resp_Body r = Inr response"
    and c: "resp_StatusCode r \<noteq> 200"
  shows "Run P ''callback'' w =
           (case writeStatus P ''FAILED'' (callback_failure_message P (send_event_error (req_url req) r))
                   (print_api_failure P (send_event_error (req_url req) r) response (posted w req)) of
              (Some ferr, w2) \<Rightarrow> (Return (Some ferr), w2)
            | (None, w2) \<Rightarrow> (Return (Some (send_event_error (req_url req) r)), w2))"
proof -
  have p: "post P ''/v1/workflows/approval/status'' m' w
           = ((response, Some (send_event_error (req_url req) r)), posted w req)"
    using post_answered[OF og r b] c by simp
  from dec obtain m where
    "Getenv w ''PAYLOAD'' \<noteq> ''''" "json_Unmarshal_map P (Getenv w ''PAYLOAD'') = Inr m"
    "index m ''status'' = VString st" "index m ''comments'' = VString cm"
    "index m ''respondedOn'' = VString ro" "index m ''userName'' = VString un"
    "formatInputsForPost P m w = (Return ((mods, outs, None), m'), w)"
    by (auto simp: callback_decodes_def split: sum.splits)
  then show ?thesis
    using p by (simp add: Run_def callback_def Let_def split: prod.splits option.splits)
qed

text \<open>
  Claim C5.  Take an \<^verbatim>\<open>init\<close> invocation whose two flags parse, or a \<^verbatim>\<open>callback\<close>
  invocation whose payload decodes, and let its request reach the client and be answered
  with a status code other than 200 and a readable body.  Then the handler gives
  \<^verbatim>\<open>k.Output\<close> exactly two lines, the transport error and the raw response body; it has
  handed that one request to the client; and the failure is recorded as
  \<open>status_failure_recorded\<close> says: when \<^verbatim>\<open>CLOUDBEES_STATUS\<close> names a file that can be
  written, the file holds the encoding of status \<^verbatim>\<open>FAILED\<close> with a message that embeds
  the error's text and the handler returns that same transport error; when the record
  cannot be written (variable unset, encoding or write failure) the error of the write is
  returned instead and no file changes.
\<close>

theorem failed_request_printed_recorded_returned:
  "(strconv_ParseBool (flag_text w ''DISALLOW_LAUNCHED_BY_USER'') = Inr d \<and>
    strconv_ParseBool (flag_text w ''NOTIFY_ALL_ELIGIBLE_USERS'') = Inr n \<and>
    outgoing_request P ''/v1/workflows/approval''
      (init_body (Getenv w ''APPROVERS'') (Getenv w ''INSTRUCTIONS'') (Getenv w ''INPUTS'') d n) w
      = Some req \<and>
    client_Do P req = Inr r \<and> resp_Body r = Inr response \<and> resp_StatusCode r \<noteq> 200
    \<longrightarrow>
    printed (snd (Run P ''init'' w)) = printed w @
      [''ERROR: API call failed with error: '' @ [CHR 0x27]
         @ error_text P (send_event_error (req_url req) r) @ [CHR 0x27] @ NL,
       ''ERROR: API response: '' @ [CHR 0x27] @ response @ [CHR 0x27] @ NL] \<and>
    requests (snd (Run P ''init'' w)) = requests w @ [req] \<and>
    status_failure_recorded P w (init_failure_message P (send_event_error (req_url req) r))
      (send_event_error (req_url req) r) (Run P ''init'' w))
   \<and>
   (callback_decodes P w st cm ro un mods outs m' \<and>
    outgoing_request P ''/v1/workflows/approval/status'' m' w = Some req' \<and>
    client_Do P req' = Inr r' \<and> resp_Body r' = Inr response' \<and> resp_StatusCode r' \<noteq> 200
    \<longrightarrow>
    printed (snd (Run P ''callback'' w)) = printed w @
      [''ERROR: API call failed with error: '' @ [CHR 0x27]
         @ error_text P (send_event_error (req_url req') r') @ [CHR 0x27] @ NL,
       ''ERROR: API response: '' @ [CHR 0x27] @ response' @ [CHR 0x27] @ NL] \<and>
    requests (snd (Run P ''callback'' w)) = requests w @ [req'] \<and>
    status_failure_recorded P w (callback_failure_message P (send_event_error (req_url req') r'))
      (send_event_error (req_url req') r') (Run P ''callback'' w))"
proof (intro conjI impI)
  assume h: "strconv_ParseBool (flag_text w ''DISALLOW_LAUNCHED_BY_USER'') = Inr d \<and>
    strconv_ParseBool (flag_text w ''NOTIFY_ALL_ELIGIBLE_USERS'') = Inr n \<and>
    outgoing_request P ''/v1/workflows/approval''
      (init_body (Getenv w ''APPROVERS'') (Getenv w ''INSTRUCTIONS'') (Getenv w ''INPUTS'') d n) w
      = Some req \<and>
    client_Do P req = Inr r \<and> resp_Body r = Inr response \<and> resp_StatusCode r \<noteq> 200"
  then have run: "Run P ''init'' w =
           (case writeStatus P ''FAILED'' (init_failure_message P (send_event_error (req_url req) r))
                   (print_api_failure P (send_event_error (req_url req) r) response (posted w req)) of
              (Some ferr, w2) \<Rightarrow> (Return (Some ferr), w2)
            | (None, w2) \<Rightarrow> (Return (Some (send_event_error (req_url req) r)), w2))"
    using init_failed_request by blast
  show "printed (snd (Run P ''init'' w)) = printed w @
      [''ERROR: API call failed with error: '' @ [CHR 0x27]
         @ error_text P (send_event_error (req_url req) r) @ [CHR 0x27] @ NL,
       ''ERROR: API response: '' @ [CHR 0x27] @ response @ [CHR 0x27] @ NL]"
    by (simp only: run writeStatus_result_fields print_api_failure_fields posted_fields)
  show "requests (snd (Run P ''init'' w)) = requests w @ [req]"
    by (simp only: run writeStatus_result_fields print_api_failure_fields posted_fields)
  show "status_failure_recorded P w (init_failure_message P (send_event_error (req_url req) r))
      (send_event_error (req_url req) r) (Run P ''init'' w)"
    by (simp only: run) (rule status_failure_recordedI, simp_all)
next
  assume h: "callback_decodes P w st cm ro un mods outs m' \<and>
    outgoing_request P ''/v1/workflows/approval/status'' m' w = Some req' \<and>
    client_Do P req' = Inr r' \<and> resp_Body r' = Inr response' \<and> resp_StatusCode r' \<noteq> 200"
  then have run: "Run P ''callback'' w =
           (case writeStatus P ''FAILED'' (callback_failure_message P (send_event_error (req_url req') r'))
                   (print_api_failure P (send_event_error (req_url req') r') response' (posted w req')) of
              (Some ferr, w2) \<Rightarrow> (Return (Some ferr), w2)
            | (None, w2) \<Rightarrow> (Return (Some (send_event_error (req_url req') r')), w2))"
    using callback_failed_request by blast
  show "printed (snd (Run P ''callback'' w)) = printed w @
      [''ERROR: API call failed with error: '' @ [CHR 0x27]
         @ error_text P (send_event_error (req_url req') r') @ [CHR 0x27] @ NL,
       ''ERROR: API response: '' @ [CHR 0x27] @ response' @ [CHR 0x27] @ NL]"
    by (simp only: run writeStatus_result_fields print_api_failure_fields posted_fields)
  show "requests (snd (Run P ''callback'' w)) = requests w @ [req']"
    by (simp only: run writeStatus_result_fields print_api_failure_fields posted_fields)
  show "status_failure_recorded P w
      (callback_failure_message P (send_event_error (req_url req') r'))
      (send_event_error (req_url req') r') (Run P ''callback'' w)"
    by (simp only: run) (rule status_failure_recordedI, simp_all)
qed

text \<open>
  The statement at the package's own failure tests: an answer \<^verbatim>\<open>500 Internal Server Error\<close>
  with body \<^verbatim>\<open>wrong parameter\<close>, for \<^verbatim>\<open>init\<close> and for \<^verbatim>\<open>callback\<close>.
\<close>

theorem failed_request_printed_recorded_returned_witness:
  "strconv_ParseBool (flag_text world_init ''DISALLOW_LAUNCHED_BY_USER'') = Inr False \<and>
   strconv_ParseBool (flag_text world_init ''NOTIFY_ALL_ELIGIBLE_USERS'') = Inr False \<and>
   outgoing_request (test_platform response_500) ''/v1/workflows/approval''
     (init_body (Getenv world_init ''APPROVERS'') (Getenv world_init ''INSTRUCTIONS'')
        (Getenv world_init ''INPUTS'') False False) world_init = Some init_request \<and>
   client_Do (test_platform response_500) init_request = Inr response_500 \<and>
   resp_Body response_500 = Inr ''wrong parameter'' \<and> resp_StatusCode response_500 \<noteq> 200 \<and>
   printed (snd (Run (test_platform response_500) ''init'' world_init)) =
     [''ERROR: API call failed with error: '' @ [CHR 0x27]
        @ text_500 ''http://test.com/v1/workflows/approval'' @ [CHR 0x27] @ NL,
      ''ERROR: API response: '' @ [CHR 0x27] @ ''wrong parameter'' @ [CHR 0x27] @ NL] \<and>
   fst (Run (test_platform response_500) ''init'' world_init) =
     Return (Some (Errorf (text_500 ''http://test.com/v1/workflows/approval''))) \<and>
   files (snd (Run (test_platform response_500) ''init'' world_init)) ''/tmp/test-status-out'' =
     Some (''{'' @ q ''message'' @ '':''
           @ q (''Failed to initialize workflow manual approval request: '' @ [CHR 0x27]
                @ json_text_500 ''http://test.com/v1/workflows/approval'' @ [CHR 0x27])
           @ '','' @ q ''status'' @ '':'' @ q ''FAILED'' @ ''}'') \<and>
   callback_decodes (test_platform response_500) (world_callback payload_approved)
     ''UPDATE_MANUAL_APPROVAL_STATUS_APPROVED'' ''lgtm'' ''2009-11-10T23:00:00Z''
     ''testUserName'' sent_inputs_approved (Some outputs_approved) sent_approved \<and>
   outgoing_request (test_platform response_500) ''/v1/workflows/approval/status'' sent_approved
     (world_callback payload_approved) = Some (status_request sent_approved) \<and>
   client_Do (test_platform response_500) (status_request sent_approved) = Inr response_500 \<and>
   printed (snd (Run (test_platform response_500) ''callback'' (world_callback payload_approved))) =
     [''ERROR: API call failed with error: '' @ [CHR 0x27]
        @ text_500 ''http://test.com/v1/workflows/approval/status'' @ [CHR 0x27] @ NL,
      ''ERROR: API response: '' @ [CHR 0x27] @ ''wrong parameter'' @ [CHR 0x27] @ NL] \<and>
   fst (Run (test_platform response_500) ''callback'' (world_callback payload_approved)) =
     Return (Some (Errorf (text_500 ''http://test.com/v1/workflows/approval/status''))) \<and>
   files (snd (Run (test_platform response_500) ''callback'' (world_callback payload_approved)))
       ''/tmp/test-status-out'' =
     Some (''{'' @ q ''message'' @ '':''
           @ q (''Failed to change workflow manual approval status: '' @ [CHR 0x27]
                @ json_text_500 ''http://test.com/v1/workflows/approval/status'' @ [CHR 0x27])
           @ '','' @ q ''status'' @ '':'' @ q ''FAILED'' @ ''}'')"
proof -
  let ?P = "test_platform response_500"
  let ?wi = world_init and ?wc = "world_callback payload_approved"
  have i1: "strconv_ParseBool (flag_text ?wi ''DISALLOW_LAUNCHED_BY_USER'') = Inr False"
    and i2: "strconv_ParseBool (flag_text ?wi ''NOTIFY_ALL_ELIGIBLE_USERS'') = Inr False"
    by (simp_all add: flag_text_def world_defs strconv_ParseBool_def)
  have i3: "outgoing_request ?P ''/v1/workflows/approval''
     (init_body (Getenv ?wi ''APPROVERS'') (Getenv ?wi ''INSTRUCTIONS'')
        (Getenv ?wi ''INPUTS'') False False) ?wi = Some init_request"
    by (simp add: outgoing_request_def defaultConfig_def init_request_def world_defs platform_defs)
  have r: "client_Do ?P req = Inr response_500" for req
    by (simp add: platform_defs)
  have b: "resp_Body response_500 = Inr ''wrong parameter''"
    and s: "resp_StatusCode response_500 \<noteq> 200"
    by (simp_all add: response_500_def)
  have c1: "callback_decodes ?P ?wc
     ''UPDATE_MANUAL_APPROVAL_STATUS_APPROVED'' ''lgtm'' ''2009-11-10T23:00:00Z''
     ''testUserName'' sent_inputs_approved (Some outputs_approved) sent_approved"
    by (rule decodes_approved) (simp add: world_defs)
  have c2: "outgoing_request ?P ''/v1/workflows/approval/status'' sent_approved ?wc
              = Some (status_request sent_approved)"
    by (simp add: outgoing_request_def defaultConfig_def status_request_def world_defs platform_defs)
  have wi: "printed ?wi = []" "files ?wi = Map.empty"
      "Getenv ?wi ''CLOUDBEES_STATUS'' = ''/tmp/test-status-out''"
    and wc: "printed ?wc = []" "files ?wc = Map.empty"
      "Getenv ?wc ''CLOUDBEES_STATUS'' = ''/tmp/test-status-out''"
    by (simp_all add: world_defs)
  have wf: "os_WriteFile_error ?P ''/tmp/test-status-out'' = None"
    by (simp add: platform_defs)
  have ui: "req_url init_request = ''http://test.com/v1/workflows/approval''"
    and uc: "req_url (status_request sent_approved) = ''http://test.com/v1/workflows/approval/status''"
    by (simp_all add: init_request_def status_request_def new_request_def)
  have t: "error_text ?P (send_event_error u response_500) = text_500 u"
     "send_event_error u response_500 = Errorf (text_500 u)" for u
    by (simp_all add: send_event_error_def text_500_def response_500_def fmt_d_def digit_def)
  have mi: "json_Marshal ?P (VMap [(''status'', VString ''FAILED''),
                (''message'', VString (init_failure_message ?P
                   (Errorf (text_500 ''http://test.com/v1/workflows/approval''))))]) =
     Inr (''{'' @ q ''message'' @ '':''
           @ q (''Failed to initialize workflow manual approval request: '' @ [CHR 0x27]
                @ json_text_500 ''http://test.com/v1/workflows/approval'' @ [CHR 0x27])
           @ '','' @ q ''status'' @ '':'' @ q ''FAILED'' @ ''}'')"
    by (simp add: platform_defs encode_defs init_failure_message_def text_500_def json_text_500_def)
  have mc: "json_Marshal ?P (VMap [(''status'', VString ''FAILED''),
                (''message'', VString (callback_failure_message ?P
                   (Errorf (text_500 ''http://test.com/v1/workflows/approval/status''))))]) =
     Inr (''{'' @ q ''message'' @ '':''
           @ q (''Failed to change workflow manual approval status: '' @ [CHR 0x27]
                @ json_text_500 ''http://test.com/v1/workflows/approval/status'' @ [CHR 0x27])
           @ '','' @ q ''status'' @ '':'' @ q ''FAILED'' @ ''}'')"
    by (simp add: platform_defs encode_defs callback_failure_message_def text_500_def
          json_text_500_def)
  note inst1 = failed_request_printed_recorded_returned
    [of ?wi False False ?P init_request response_500 "''wrong parameter''"]
  from inst1 i1 i2 i3 r b s
  have ri: "printed (snd (Run ?P ''init'' ?wi)) = printed ?wi @
      [''ERROR: API call failed with error: '' @ [CHR 0x27]
         @ error_text ?P (send_event_error (req_url init_request) response_500) @ [CHR 0x27] @ NL,
       ''ERROR: API response: '' @ [CHR 0x27] @ ''wrong parameter'' @ [CHR 0x27] @ NL] \<and>
    status_failure_recorded ?P ?wi
      (init_failure_message ?P (send_event_error (req_url init_request) response_500))
      (send_event_error (req_url init_request) response_500) (Run ?P ''init'' ?wi)"
    by blast
  note inst2 = failed_request_printed_recorded_returned
    [where w = ?wc and P = ?P and req' = "status_request sent_approved" and r' = response_500
       and response' = "''wrong parameter''" and st = "''UPDATE_MANUAL_APPROVAL_STATUS_APPROVED''"
       and cm = "''lgtm''" and ro = "''2009-11-10T23:00:00Z''" and un = "''testUserName''"
       and mods = sent_inputs_approved and outs = "Some outputs_approved" and m' = sent_approved]
  from inst2 c1 c2 r b s
  have rc: "printed (snd (Run ?P ''callback'' ?wc)) = printed ?wc @
      [''ERROR: API call failed with error: '' @ [CHR 0x27]
         @ error_text ?P (send_event_error (req_url (status_request sent_approved)) response_500)
         @ [CHR 0x27] @ NL,
       ''ERROR: API response: '' @ [CHR 0x27] @ ''wrong parameter'' @ [CHR 0x27] @ NL] \<and>
    status_failure_recorded ?P ?wc
      (callback_failure_message ?P
         (send_event_error (req_url (status_request sent_approved)) response_500))
      (send_event_error (req_url (status_request sent_approved)) response_500)
      (Run ?P ''callback'' ?wc)"
    by blast
  have ei: "printed (snd (Run ?P ''init'' ?wi)) =
     [''ERROR: API call failed with error: '' @ [CHR 0x27]
        @ text_500 ''http://test.com/v1/workflows/approval'' @ [CHR 0x27] @ NL,
      ''ERROR: API response: '' @ [CHR 0x27] @ ''wrong parameter'' @ [CHR 0x27] @ NL] \<and>
   fst (Run ?P ''init'' ?wi) =
     Return (Some (Errorf (text_500 ''http://test.com/v1/workflows/approval''))) \<and>
   files (snd (Run ?P ''init'' ?wi)) ''/tmp/test-status-out'' =
     Some (''{'' @ q ''message'' @ '':''
           @ q (''Failed to initialize workflow manual approval request: '' @ [CHR 0x27]
                @ json_text_500 ''http://test.com/v1/workflows/approval'' @ [CHR 0x27])
           @ '','' @ q ''status'' @ '':'' @ q ''FAILED'' @ ''}'')"
    using ri
    by (simp add: status_failure_recorded_def Let_def ui t wi wf mi)
  have ec: "printed (snd (Run ?P ''callback'' ?wc)) =
     [''ERROR: API call failed with error: '' @ [CHR 0x27]
        @ text_500 ''http://test.com/v1/workflows/approval/status'' @ [CHR 0x27] @ NL,
      ''ERROR: API response: '' @ [CHR 0x27] @ ''wrong parameter'' @ [CHR 0x27] @ NL] \<and>
   fst (Run ?P ''callback'' ?wc) =
     Return (Some (Errorf (text_500 ''http://test.com/v1/workflows/approval/status''))) \<and>
   files (snd (Run ?P ''callback'' ?wc)) ''/tmp/test-status-out'' =
     Some (''{'' @ q ''message'' @ '':''
           @ q (''Failed to change workflow manual approval status: '' @ [CHR 0x27]
                @ json_text_500 ''http://test.com/v1/workflows/approval/status'' @ [CHR 0x27])
           @ '','' @ q ''status'' @ '':'' @ q ''FAILED'' @ ''}'')"
    using rc
    by (simp add: status_failure_recorded_def Let_def uc t wc wf mc)
  show ?thesis
    using i1 i2 i3 r b s c1 c2 ei ec by simp
qed

section \<open>The approval status\<close>

lemma loggable_VMap:
  "loggable (VMap ip) = (\<exists>s. index ip ''value'' = VString s)"
  by (auto simp: loggable_def is_string_def split: go_value.splits)

lemma loggableE:
  assumes "loggable x"
  obtains ip s where "x = VMap ip" and "index ip ''value'' = VString s"
  using assms by (cases x) (auto simp: loggable_def is_string_def split: go_value.splits)

lemma formatInputsForPost_loop_loggable:
  "formatInputsForPost_loop P xs acc = Return (mods, outs) \<Longrightarrow> list_all loggable mods"
proof (induction xs arbitrary: acc mods outs)
  case Nil
  then show ?case by simp
next
  case (Cons x xs)
  from Cons.prems obtain ip name inputVal rest' where
    "formatInputsForPost_loop P xs (AList.update name (index ip ''value'') acc)
       = Return (rest', outs)"
    and mods: "mods = VMap (AList.update ''value'' (VString inputVal) ip) # rest'"
    by (auto split: outcome.splits prod.splits)
  with Cons.IH have "list_all loggable rest'" by blast
  then show ?case
    using mods by (simp add: loggable_VMap index_def update_conv')
qed

lemma formatInputsForPost_returned:
  assumes "formatInputsForPost P m w = (Return ((mods, outs, None), m'), w0)"
  shows "list_all loggable mods \<and> outs \<noteq> None \<and> w0 = w"
  using assms formatInputsForPost_loop_loggable
  by (auto simp: formatInputsForPost_def Let_def
           split: if_splits outcome.splits prod.splits sum.splits)

lemma log_loop_prints:
  "list_all loggable mods \<Longrightarrow>
   \<exists>lines. formatInputsValsAndWriteToLog_loop P mods w = (Return (), w\<lparr>printed := printed w @ lines\<rparr>)"
proof (induction mods arbitrary: w)
  case Nil
  have "w = w\<lparr>printed := printed w @ []\<rparr>" by simp
  then show ?case by (metis formatInputsValsAndWriteToLog_loop.simps(1))
next
  case (Cons x xs)
  from Cons.prems have lx: "loggable x" and rest: "list_all loggable xs" by simp_all
  from lx obtain ip s where x: "x = VMap ip" and s: "index ip ''value'' = VString s"
    by (rule loggableE)
  define line where "line = '' '' @ Sprint_s P (index ip ''name'') @ '': ''
      @ (if index ip ''is_default'' = VBool True
         then Replace_newlines s @ '' (default)'' else Replace_newlines s) @ '' '' @ NL"
  from Cons.IH[OF rest, of "Printf line w"] obtain lines where
    l: "formatInputsValsAndWriteToLog_loop P xs (Printf line w)
        = (Return (), (Printf line w)\<lparr>printed := printed (Printf line w) @ lines\<rparr>)"
    by blast
  have "formatInputsValsAndWriteToLog_loop P (x # xs) w
        = (Return (), w\<lparr>printed := printed w @ (line # lines)\<rparr>)"
    using x s l by (simp add: line_def Let_def Printf_def)
  then show ?case by blast
qed

lemma log_prints:
  assumes "list_all loggable mods"
  shows "\<exists>lines. formatInputsValsAndWriteToLog P mods w = (Return (), w\<lparr>printed := printed w @ lines\<rparr>)"
proof (cases "length mods > 0")
  case True
  from log_loop_prints[OF assms, of P
      "Printf (''------------------'' @ NL) (Printf (NL @ ''Input Parameters:'' @ NL) w)"]
  obtain lines where
    "formatInputsValsAndWriteToLog_loop P mods
       (Printf (''------------------'' @ NL) (Printf (NL @ ''Input Parameters:'' @ NL) w))
     = (Return (), (Printf (''------------------'' @ NL) (Printf (NL @ ''Input Parameters:'' @ NL) w))
         \<lparr>printed := printed (Printf (''------------------'' @ NL)
                       (Printf (NL @ ''Input Parameters:'' @ NL) w)) @ lines\<rparr>)"
    by blast
  then have "formatInputsValsAndWriteToLog P mods w
     = (Return (), w\<lparr>printed := printed w @
          ((NL @ ''Input Parameters:'' @ NL) # (''------------------'' @ NL) # lines)\<rparr>)"
    using True by (simp add: formatInputsValsAndWriteToLog_def Printf_def)
  then show ?thesis by blast
next
  case False
  have "w = w\<lparr>printed := printed w @ []\<rparr>" by simp
  then show ?thesis using False by (metis formatInputsValsAndWriteToLog_def)
qed

lemma callback_after_post:
  assumes dec: "callback_decodes P w st cm ro un mods outs m'"
    and ok: "post_succeeds P ''/v1/workflows/approval/status'' m' w req"
  shows "callback P w =
           (case processApprovalStatus P st un ro cm (posted w req) of
              ((jobStatus, Some err2), w2) \<Rightarrow> (Return (Some err2), w2)
            | ((jobStatus, None), w2) \<Rightarrow> callback_finish P jobStatus mods outs cm w2)"
proof -
  from post_succeeds_post[OF ok] obtain response where
    p: "post P ''/v1/workflows/approval/status'' m' w = ((response, None), posted w req)"
    by blast
  from dec obtain m where
    "Getenv w ''PAYLOAD'' \<noteq> ''''" "json_Unmarshal_map P (Getenv w ''PAYLOAD'') = Inr m"
    "index m ''status'' = VString st" "index m ''comments'' = VString cm"
    "index m ''respondedOn'' = VString ro" "index m ''userName'' = VString un"
    "formatInputsForPost P m w = (Return ((mods, outs, None), m'), w)"
    by (auto simp: callback_decodes_def split: sum.splits)
  then show ?thesis
    using p by (simp add: callback_def Let_def)
qed

lemma callback_decodes_outputs:
  assumes "callback_decodes P w st cm ro un mods outs m'"
  shows "list_all loggable mods \<and> outs \<noteq> None"
  using assms formatInputsForPost_returned
  by (auto simp: callback_decodes_def split: sum.splits)



section \<open>The output artifacts\<close>

lemma writeToOutputs_written:
  assumes "Getenv w ''CLOUDBEES_OUTPUTS'' = outputsDir" and "outputsDir \<noteq> ''''"
    and "json_Marshal P (VMap outputsMap) = Inr outputBytes"
    and "os_WriteFile_error P (filepath_Join P outputsDir ''approvalInputValues'') = None"
    and "os_WriteFile_error P (filepath_Join P outputsDir ''comments'') = None"
  shows "writeToOutputs P (Some outputsMap) comments w =
           (None, w\<lparr>files := (files w)
              (filepath_Join P outputsDir ''approvalInputValues'' \<mapsto> outputBytes,
               filepath_Join P outputsDir ''comments'' \<mapsto> comments)\<rparr>)"
  using assms
  by (simp add: writeToOutputs_def writeAsOutput_def os_WriteFile_def Getenv_def Let_def)

lemma writeToOutputs_missing:
  assumes "Getenv w ''CLOUDBEES_OUTPUTS'' = ''''"
    and "json_Marshal P (VMap outputsMap) = Inr outputBytes"
  shows "writeToOutputs P (Some outputsMap) comments w =
           (Some (Errorf ''CLOUDBEES_OUTPUTS environment variable missing''), w)"
  using assms by (simp add: writeToOutputs_def writeAsOutput_def)

lemma callback_approved_or_rejected:
  assumes dec: "callback_decodes P w st cm ro un mods outs m'"
    and ok: "post_succeeds P ''/v1/workflows/approval/status'' m' w req"
    and st: "st = ''UPDATE_MANUAL_APPROVAL_STATUS_APPROVED'' \<or>
             st = ''UPDATE_MANUAL_APPROVAL_STATUS_REJECTED''"
  shows "\<exists>lines. callback P w =
           (case writeToOutputs P outs cm ((posted w req)\<lparr>printed := printed w @ lines\<rparr>) of
              (Some err3, w4) \<Rightarrow> (Return (Some err3), w4)
            | (None, w4) \<Rightarrow>
              (case writeStatus P
                      (if st = ''UPDATE_MANUAL_APPROVAL_STATUS_APPROVED''
                       then ''APPROVED'' else ''REJECTED'')
                      ''Successfully changed workflow manual approval status'' w4 of
                 (r, w5) \<Rightarrow> (Return r, w5)))"
proof -
  define job where "job = (if st = ''UPDATE_MANUAL_APPROVAL_STATUS_APPROVED''
                       then ''APPROVED'' else ''REJECTED'')"
  from st obtain line where
    p: "processApprovalStatus P st un ro cm (posted w req) = ((job, None), Printf line (posted w req))"
    by (auto simp: processApprovalStatus_def job_def)
  from callback_decodes_outputs[OF dec] have "list_all loggable mods" by simp
  from log_prints[OF this, of P "Printf line (posted w req)"] obtain lines where
    l: "formatInputsValsAndWriteToLog P mods (Printf line (posted w req)) =
          (Return (), (Printf line (posted w req))
             \<lparr>printed := printed (Printf line (posted w req)) @ lines\<rparr>)"
    by blast
  have w3: "(Printf line (posted w req))\<lparr>printed := printed (Printf line (posted w req)) @ lines\<rparr>
            = (posted w req)\<lparr>printed := printed w @ (line # lines)\<rparr>"
    by (simp add: Printf_def posted_def)
  have l': "formatInputsValsAndWriteToLog P mods (Printf line (posted w req)) =
          (Return (), (posted w req)\<lparr>printed := printed w @ (line # lines)\<rparr>)"
    by (simp only: l w3)
  have "callback P w =
           (case writeToOutputs P outs cm ((posted w req)\<lparr>printed := printed w @ (line # lines)\<rparr>) of
              (Some err3, w4) \<Rightarrow> (Return (Some err3), w4)
            | (None, w4) \<Rightarrow>
              (case writeStatus P job
                      ''Successfully changed workflow manual approval status'' w4 of
                 (r, w5) \<Rightarrow> (Return r, w5)))"
    using p l' by (simp add: callback_after_post[OF dec ok] callback_finish_def)
  then show ?thesis unfolding job_def by blast
qed

text \<open>
  Claim C4, as amended.  On the success path of \<^verbatim>\<open>callback\<close> (the payload decodes, the
  POST succeeds, the status is approved or rejected, \<^verbatim>\<open>CLOUDBEES_OUTPUTS\<close> is set and its
  two files can be written) the artifact \<^verbatim>\<open>approvalInputValues\<close> is always written, with
  the JSON encoding of the captured input-value map whatever that map holds, the empty map
  included, and then the artifact \<^verbatim>\<open>comments\<close> is always written with the raw comment
  text, the empty text included; the final status record is written on top of these two
  files.
\<close>

theorem both_output_artifacts_always_written:
  assumes dec: "callback_decodes P w st cm ro un mods (Some outputsMap) m'"
    and ok: "post_succeeds P ''/v1/workflows/approval/status'' m' w req"
    and st: "st = ''UPDATE_MANUAL_APPROVAL_STATUS_APPROVED'' \<or>
             st = ''UPDATE_MANUAL_APPROVAL_STATUS_REJECTED''"
    and dir: "Getenv w ''CLOUDBEES_OUTPUTS'' = outputsDir" "outputsDir \<noteq> ''''"
    and enc: "json_Marshal P (VMap outputsMap) = Inr outputBytes"
    and wr: "os_WriteFile_error P (filepath_Join P outputsDir ''approvalInputValues'') = None"
            "os_WriteFile_error P (filepath_Join P outputsDir ''comments'') = None"
  shows "\<exists>w4. files w4 = (files w)
                  (filepath_Join P outputsDir ''approvalInputValues'' \<mapsto> outputBytes,
                   filepath_Join P outputsDir ''comments'' \<mapsto> cm) \<and>
              Getenv w4 = Getenv w \<and>
              callback P w =
                (case writeStatus P
                        (if st = ''UPDATE_MANUAL_APPROVAL_STATUS_APPROVED''
                         then ''APPROVED'' else ''REJECTED'')
                        ''Successfully changed workflow manual approval status'' w4 of
                   (r, w5) \<Rightarrow> (Return r, w5))"
proof -
  from callback_approved_or_rejected[OF dec ok st] obtain lines where
    c: "callback P w =
           (case writeToOutputs P (Some outputsMap) cm
                   ((posted w req)\<lparr>printed := printed w @ lines\<rparr>) of
              (Some err3, w4) \<Rightarrow> (Return (Some err3), w4)
            | (None, w4) \<Rightarrow>
              (case writeStatus P
                      (if st = ''UPDATE_MANUAL_APPROVAL_STATUS_APPROVED''
                       then ''APPROVED'' else ''REJECTED'')
                      ''Successfully changed workflow manual approval status'' w4 of
                 (r, w5) \<Rightarrow> (Return r, w5)))"
    by blast
  define w3 where "w3 = (posted w req)\<lparr>printed := printed w @ lines\<rparr>"
  have g: "Getenv w3 = Getenv w" and f: "files w3 = files w"
    by (simp_all add: w3_def Getenv_def posted_def fun_eq_iff)
  from dir g have dir3: "Getenv w3 ''CLOUDBEES_OUTPUTS'' = outputsDir" by simp
  define w4 where "w4 = w3\<lparr>files := (files w3)
              (filepath_Join P outputsDir ''approvalInputValues'' \<mapsto> outputBytes,
               filepath_Join P outputsDir ''comments'' \<mapsto> cm)\<rparr>"
  have o: "writeToOutputs P (Some outputsMap) cm w3 = (None, w4)"
    unfolding w4_def by (rule writeToOutputs_written[OF dir3 dir(2) enc wr])
  have "files w4 = (files w)
                  (filepath_Join P outputsDir ''approvalInputValues'' \<mapsto> outputBytes,
                   filepath_Join P outputsDir ''comments'' \<mapsto> cm)"
    by (simp add: w4_def f)
  moreover have "Getenv w4 = Getenv w"
    using g by (simp add: w4_def Getenv_def fun_eq_iff)
  moreover have "callback P w =
                (case writeStatus P
                        (if st = ''UPDATE_MANUAL_APPROVAL_STATUS_APPROVED''
                         then ''APPROVED'' else ''REJECTED'')
                        ''Successfully changed workflow manual approval status'' w4 of
                   (r, w5) \<Rightarrow> (Return r, w5))"
    using c o by (simp add: w3_def)
  ultimately show ?thesis by blast
qed

text \<open>
  The statement at the approved payload with three input values: the three files of the
  package's test \<^verbatim>\<open>success APPROVED\<close>.
\<close>

theorem both_output_artifacts_always_written_witness:
  "callback_decodes (test_platform response_200) (world_callback payload_approved)
     ''UPDATE_MANUAL_APPROVAL_STATUS_APPROVED'' ''lgtm'' ''2009-11-10T23:00:00Z''
     ''testUserName'' sent_inputs_approved (Some outputs_approved) sent_approved \<and>
   post_succeeds (test_platform response_200) ''/v1/workflows/approval/status'' sent_approved
     (world_callback payload_approved) (status_request sent_approved) \<and>
   Getenv (world_callback payload_approved) ''CLOUDBEES_OUTPUTS'' = ''/tmp/test-outputs'' \<and>
   json_Marshal (test_platform response_200) (VMap outputs_approved) =
     Inr (''{'' @ q ''n1'' @ '':true,'' @ q ''n2'' @ '':'' @ q (''a'' @ [CHR 0x5C] @ ''nb'')
          @ '','' @ q ''n3'' @ '':99.33}'') \<and>
   fst (callback (test_platform response_200) (world_callback payload_approved)) = Return None \<and>
   files (snd (callback (test_platform response_200) (world_callback payload_approved)))
       ''/tmp/test-outputs/approvalInputValues'' =
     Some (''{'' @ q ''n1'' @ '':true,'' @ q ''n2'' @ '':'' @ q (''a'' @ [CHR 0x5C] @ ''nb'')
           @ '','' @ q ''n3'' @ '':99.33}'') \<and>
   files (snd (callback (test_platform response_200) (world_callback payload_approved)))
       ''/tmp/test-outputs/comments'' = Some ''lgtm'' \<and>
   files (snd (callback (test_platform response_200) (world_callback payload_approved)))
       ''/tmp/test-status-out'' =
     Some (''{'' @ q ''message'' @ '':''
           @ q ''Successfully changed workflow manual approval status''
           @ '','' @ q ''status'' @ '':'' @ q ''APPROVED'' @ ''}'')"
proof -
  let ?P = "test_platform response_200" and ?w = "world_callback payload_approved"
  let ?bytes = "''{'' @ q ''n1'' @ '':true,'' @ q ''n2'' @ '':'' @ q (''a'' @ [CHR 0x5C] @ ''nb'')
          @ '','' @ q ''n3'' @ '':99.33}''"
  have h1: "callback_decodes ?P ?w
     ''UPDATE_MANUAL_APPROVAL_STATUS_APPROVED'' ''lgtm'' ''2009-11-10T23:00:00Z''
     ''testUserName'' sent_inputs_approved (Some outputs_approved) sent_approved"
    by (rule decodes_approved) (simp add: world_defs)
  have h2: "post_succeeds ?P ''/v1/workflows/approval/status'' sent_approved ?w
              (status_request sent_approved)"
    by (simp add: post_succeeds_def outgoing_request_def defaultConfig_def status_request_def
          world_defs platform_defs)
  have h3: "''UPDATE_MANUAL_APPROVAL_STATUS_APPROVED'' = ''UPDATE_MANUAL_APPROVAL_STATUS_APPROVED'' \<or>
            ''UPDATE_MANUAL_APPROVAL_STATUS_APPROVED'' = ''UPDATE_MANUAL_APPROVAL_STATUS_REJECTED''"
    by simp
  have h4: "Getenv ?w ''CLOUDBEES_OUTPUTS'' = ''/tmp/test-outputs''"
    and h5: "''/tmp/test-outputs'' \<noteq> ''''"
    by (simp_all add: world_defs)
  have h6: "json_Marshal ?P (VMap outputs_approved) = Inr ?bytes"
    by (simp add: platform_defs outputs_approved_def encode_defs)
  have h7: "os_WriteFile_error ?P (filepath_Join ?P ''/tmp/test-outputs'' ''approvalInputValues'') = None"
    and h8: "os_WriteFile_error ?P (filepath_Join ?P ''/tmp/test-outputs'' ''comments'') = None"
    by (simp_all add: platform_defs)
  from both_output_artifacts_always_written[OF h1 h2 h3 h4 h5 h6 h7 h8]
  obtain w4 where
    f: "files w4 = (files ?w)
          (filepath_Join ?P ''/tmp/test-outputs'' ''approvalInputValues'' \<mapsto> ?bytes,
           filepath_Join ?P ''/tmp/test-outputs'' ''comments'' \<mapsto> ''lgtm'')"
    and g: "Getenv w4 = Getenv ?w"
    and c: "callback ?P ?w =
              (case writeStatus ?P ''APPROVED''
                      ''Successfully changed workflow manual approval status'' w4 of
                 (r, w5) \<Rightarrow> (Return r, w5))"
    by auto
  have s: "writeStatus ?P ''APPROVED'' ''Successfully changed workflow manual approval status'' w4 =
      (None, w4\<lparr>files := (files w4)(''/tmp/test-status-out'' \<mapsto>
         ''{'' @ q ''message'' @ '':''
           @ q ''Successfully changed workflow manual approval status''
           @ '','' @ q ''status'' @ '':'' @ q ''APPROVED'' @ ''}'')\<rparr>)"
    by (rule writeStatus_written) (simp_all add: g world_defs platform_defs encode_defs)
  have "fst (callback ?P ?w) = Return None \<and>
   files (snd (callback ?P ?w)) ''/tmp/test-outputs/approvalInputValues'' = Some ?bytes \<and>
   files (snd (callback ?P ?w)) ''/tmp/test-outputs/comments'' = Some ''lgtm'' \<and>
   files (snd (callback ?P ?w)) ''/tmp/test-status-out'' =
     Some (''{'' @ q ''message'' @ '':''
           @ q ''Successfully changed workflow manual approval status''
           @ '','' @ q ''status'' @ '':'' @ q ''APPROVED'' @ ''}'')"
    unfolding c s by (simp add: f platform_defs)
  then show ?thesis using h1 h2 h4 h6 by simp
qed

text \<open>
  The claim as it was stated (\<^verbatim>\<open>approvalInputValues\<close> is written only when the captured
  map is not empty) is false at a payload without \<^verbatim>\<open>inputs\<close>: the captured map is
  empty, the invocation succeeds, and \<^verbatim>\<open>approvalInputValues\<close> is written with
  \<^verbatim>\<open>{}\<close>, as the package's tests expect; \<^verbatim>\<open>comments\<close> is written with the empty text.
\<close>

theorem empty_input_map_is_written_counterexample:
  "fst (formatInputsForPost (test_platform response_200) parsed_rejected
          (world_callback payload_rejected)) =
     Return (([], Some [], None), parsed_rejected) \<and>
   fst (callback (test_platform response_200) (world_callback payload_rejected)) = Return None \<and>
   files (snd (callback (test_platform response_200) (world_callback payload_rejected)))
       ''/tmp/test-outputs/approvalInputValues'' = Some ''{}'' \<and>
   files (snd (callback (test_platform response_200) (world_callback payload_rejected)))
       ''/tmp/test-outputs/comments'' = Some ''''"
  by (simp add: callback_def callback_finish_def world_defs platform_defs payload_defs index_def
        formatInputsForPost_def post_def defaultConfig_def new_request_def Let_def
        processApprovalStatus_def Printf_def formatInputsValsAndWriteToLog_def
        writeToOutputs_def writeAsOutput_def os_WriteFile_def writeStatus_def encode_defs)

text \<open>
  Claim C10.  Take a \<^verbatim>\<open>callback\<close> invocation whose payload decodes, whose POST succeeds
  and whose status is approved or rejected, with \<^verbatim>\<open>CLOUDBEES_OUTPUTS\<close> unset (the
  captured map being encodable).  The handler returns the error
  \<^verbatim>\<open>CLOUDBEES_OUTPUTS environment variable missing\<close> and leaves every file as it was:
  the final status record is not written, although the request was handed to the client.
\<close>

theorem missing_outputs_directory_leaves_status_unwritten:
  assumes dec: "callback_decodes P w st cm ro un mods (Some outputsMap) m'"
    and ok: "post_succeeds P ''/v1/workflows/approval/status'' m' w req"
    and st: "st = ''UPDATE_MANUAL_APPROVAL_STATUS_APPROVED'' \<or>
             st = ''UPDATE_MANUAL_APPROVAL_STATUS_REJECTED''"
    and dir: "Getenv w ''CLOUDBEES_OUTPUTS'' = ''''"
    and enc: "json_Marshal P (VMap outputsMap) = Inr outputBytes"
  shows "fst (callback P w) =
           Return (Some (Errorf ''CLOUDBEES_OUTPUTS environment variable missing'')) \<and>
         files (snd (callback P w)) = files w \<and>
         requests (snd (callback P w)) = requests w @ [req]"
proof -
  from callback_approved_or_rejected[OF dec ok st] obtain lines where
    c: "callback P w =
           (case writeToOutputs P (Some outputsMap) cm
                   ((posted w req)\<lparr>printed := printed w @ lines\<rparr>) of
              (Some err3, w4) \<Rightarrow> (Return (Some err3), w4)
            | (None, w4) \<Rightarrow>
              (case writeStatus P
                      (if st = ''UPDATE_MANUAL_APPROVAL_STATUS_APPROVED''
                       then ''APPROVED'' else ''REJECTED'')
                      ''Successfully changed workflow manual approval status'' w4 of
                 (r, w5) \<Rightarrow> (Return r, w5)))"
    by blast
  define w3 where "w3 = (posted w req)\<lparr>printed := printed w @ lines\<rparr>"
  have "Getenv w3 ''CLOUDBEES_OUTPUTS'' = ''''"
    using dir by (simp add: w3_def Getenv_def posted_def)
  from writeToOutputs_missing[OF this enc]
  have "callback P w =
          (Return (Some (Errorf ''CLOUDBEES_OUTPUTS environment variable missing'')), w3)"
    using c by (simp add: w3_def)
  then show ?thesis by (simp add: w3_def posted_def)
qed

text \<open>
  The statement at the approved payload with \<^verbatim>\<open>CLOUDBEES_STATUS\<close> set and
  \<^verbatim>\<open>CLOUDBEES_OUTPUTS\<close> unset: no file exists afterwards.
\<close>

theorem missing_outputs_directory_leaves_status_unwritten_witness:
  "callback_decodes (test_platform response_200) (world_callback_without_outputs payload_approved)
     ''UPDATE_MANUAL_APPROVAL_STATUS_APPROVED'' ''lgtm'' ''2009-11-10T23:00:00Z''
     ''testUserName'' sent_inputs_approved (Some outputs_approved) sent_approved \<and>
   post_succeeds (test_platform response_200) ''/v1/workflows/approval/status'' sent_approved
     (world_callback_without_outputs payload_approved) (status_request sent_approved) \<and>
   Getenv (world_callback_without_outputs payload_approved) ''CLOUDBEES_OUTPUTS'' = '''' \<and>
   Getenv (world_callback_without_outputs payload_approved) ''CLOUDBEES_STATUS''
     = ''/tmp/test-status-out'' \<and>
   fst (callback (test_platform response_200) (world_callback_without_outputs payload_approved)) =
     Return (Some (Errorf ''CLOUDBEES_OUTPUTS environment variable missing'')) \<and>
   files (snd (callback (test_platform response_200)
                 (world_callback_without_outputs payload_approved))) = Map.empty \<and>
   requests (snd (callback (test_platform response_200)
                    (world_callback_without_outputs payload_approved))) =
     [status_request sent_approved]"
proof -
  let ?P = "test_platform response_200"
  let ?w = "world_callback_without_outputs payload_approved"
  have h1: "callback_decodes ?P ?w
     ''UPDATE_MANUAL_APPROVAL_STATUS_APPROVED'' ''lgtm'' ''2009-11-10T23:00:00Z''
     ''testUserName'' sent_inputs_approved (Some outputs_approved) sent_approved"
    by (rule decodes_approved) (simp add: world_defs)
  have h2: "post_succeeds ?P ''/v1/workflows/approval/status'' sent_approved ?w
              (status_request sent_approved)"
    by (simp add: post_succeeds_def outgoing_request_def defaultConfig_def status_request_def
          world_defs platform_defs)
  have h3: "''UPDATE_MANUAL_APPROVAL_STATUS_APPROVED'' = ''UPDATE_MANUAL_APPROVAL_STATUS_APPROVED'' \<or>
            ''UPDATE_MANUAL_APPROVAL_STATUS_APPROVED'' = ''UPDATE_MANUAL_APPROVAL_STATUS_REJECTED''"
    by simp
  have h4: "Getenv ?w ''CLOUDBEES_OUTPUTS'' = ''''"
    and h4': "Getenv ?w ''CLOUDBEES_STATUS'' = ''/tmp/test-status-out''"
    by (simp_all add: world_defs)
  have h5: "json_Marshal ?P (VMap outputs_approved)
              = Inr (encode test_FormatFloat (VMap outputs_approved))"
    by (simp add: platform_defs)
  have w: "files ?w = Map.empty" "requests ?w = []" by (simp_all add: world_defs)
  from missing_outputs_directory_leaves_status_unwritten[OF h1 h2 h3 h4 h5]
  show ?thesis using h1 h2 h4 h4' w by simp
qed

section \<open>A payload that is valid JSON of the wrong shape\<close>

lemma assert_string_panics:
  "\<not> is_string v \<Longrightarrow> assert_string v = Panic (conversion_panic v ''string'')"
  by (cases v) (simp_all add: is_string_def)

lemma assert_string_returns:
  "is_string v \<Longrightarrow> \<exists>s. v = VString s \<and> assert_string v = Return s"
  by (cases v) (simp_all add: is_string_def)

lemma json_value_index:
  "json_value (VMap m) \<Longrightarrow> json_value (index m k)"
  by (auto simp: index_def list_all_iff split: option.splits dest!: map_of_SomeD)

lemma json_value_not_int:
  "json_value v \<Longrightarrow> \<not> is_int v"
  by (cases v) (simp_all add: is_int_def)

lemma formatInputsForPost_loop_panics:
  "list_all json_value xs \<Longrightarrow> \<not> list_all named_object xs \<Longrightarrow>
   \<exists>v t. formatInputsForPost_loop P xs acc = Panic (conversion_panic v t)"
proof (induction xs arbitrary: acc)
  case Nil
  then show ?case by simp
next
  case (Cons x xs)
  from Cons.prems have jx: "json_value x" and jxs: "list_all json_value xs" by simp_all
  show ?case
  proof (cases "named_object x")
    case False
    show ?thesis
    proof (cases x)
      case (VMap ip)
      with False have "\<not> is_string (index ip ''name'')" by (simp add: named_object_def)
      from assert_string_panics[OF this] VMap show ?thesis by auto
    qed (auto)
  next
    case True
    then obtain ip where x: "x = VMap ip" and nm: "is_string (index ip ''name'')"
      by (cases x) (simp_all add: named_object_def)
    from assert_string_returns[OF nm] obtain n where
      n: "assert_string (index ip ''name'') = Return n" by blast
    from jx x have "json_value (index ip ''value'')" by (simp only: json_value_index)
    from interfaceToString_returns[OF json_value_not_int[OF this]] obtain s where
      s: "interfaceToString P (index ip ''value'') = Return s" by blast
    from True Cons.prems(2) have "\<not> list_all named_object xs" by simp
    from Cons.IH[OF jxs this, of "AList.update n (index ip ''value'') acc"] obtain v t where
      "formatInputsForPost_loop P xs (AList.update n (index ip ''value'') acc)
         = Panic (conversion_panic v t)"
      by blast
    then have "formatInputsForPost_loop P (x # xs) acc = Panic (conversion_panic v t)"
      using x n s by simp
    then show ?thesis by blast
  qed
qed

lemma formatInputsForPost_panics:
  assumes j: "json_value (VMap m)"
    and bad: "case index m ''inputs'' of
                VNil \<Rightarrow> False
              | VSlice xs \<Rightarrow> \<not> list_all named_object xs
              | _ \<Rightarrow> True"
  shows "\<exists>v t. formatInputsForPost P m w = (Panic (conversion_panic v t), w)"
proof (cases "index m ''inputs''")
  case (VSlice xs)
  with bad have nb: "\<not> list_all named_object xs" by simp
  then have ne: "xs \<noteq> []" by auto
  from json_value_index[OF j, of "''inputs''"] VSlice have "list_all json_value xs" by simp
  from formatInputsForPost_loop_panics[OF this nb, of P "[]"] obtain v t where
    "formatInputsForPost_loop P xs [] = Panic (conversion_panic v t)" by blast
  then show ?thesis using VSlice ne by (auto simp: formatInputsForPost_def)
qed (use bad in \<open>auto simp: formatInputsForPost_def\<close>)

text \<open>
  Claim C9.  Let \<^verbatim>\<open>PAYLOAD\<close> be valid JSON (it decodes, into the values that
  \<^verbatim>\<open>json.Unmarshal\<close> produces) that lacks one of the fields \<^verbatim>\<open>status\<close>,
  \<^verbatim>\<open>comments\<close>, \<^verbatim>\<open>respondedOn\<close>, \<^verbatim>\<open>userName\<close> or has it with a value that is not a
  string, or whose \<^verbatim>\<open>inputs\<close> is neither \<^verbatim>\<open>null\<close> nor an array of objects with a
  string \<^verbatim>\<open>name\<close>.  Then \<^verbatim>\<open>callback\<close> does not return an error value: it panics on a
  failed type assertion, having changed nothing.
\<close>

theorem malformed_payload_panics:
  assumes p: "Getenv w ''PAYLOAD'' \<noteq> ''''"
    and u: "json_Unmarshal_map P (Getenv w ''PAYLOAD'') = Inr m"
    and j: "json_value (VMap m)"
    and bad: "malformed_payload m"
  shows "\<exists>v t. callback P w = (Panic (conversion_panic v t), w)"
proof (cases "is_string (index m ''status'')")
  case False
  from assert_string_panics[OF this] show ?thesis
    using p u by (auto simp: callback_def Let_def)
next
  case s: True
  from assert_string_returns[OF s] obtain st where
    st: "assert_string (index m ''status'') = Return st" by blast
  show ?thesis
  proof (cases "is_string (index m ''comments'')")
    case False
    from assert_string_panics[OF this] show ?thesis
      using p u st by (auto simp: callback_def Let_def)
  next
    case c: True
    from assert_string_returns[OF c] obtain cm where
      cm: "assert_string (index m ''comments'') = Return cm" by blast
    show ?thesis
    proof (cases "is_string (index m ''respondedOn'')")
      case False
      from assert_string_panics[OF this] show ?thesis
        using p u st cm by (auto simp: callback_def Let_def)
    next
      case r: True
      from assert_string_returns[OF r] obtain ro where
        ro: "assert_string (index m ''respondedOn'') = Return ro" by blast
      show ?thesis
      proof (cases "is_string (index m ''userName'')")
        case False
        from assert_string_panics[OF this] show ?thesis
          using p u st cm ro by (auto simp: callback_def Let_def)
      next
        case n: True
        from assert_string_returns[OF n] obtain un where
          un: "assert_string (index m ''userName'') = Return un" by blast
        from bad s c r n have "case index m ''inputs'' of
                VNil \<Rightarrow> False
              | VSlice xs \<Rightarrow> \<not> list_all named_object xs
              | _ \<Rightarrow> True"
          by (simp add: malformed_payload_def)
        from formatInputsForPost_panics[OF j this, of P w] obtain v t where
          "formatInputsForPost P m w = (Panic (conversion_panic v t), w)" by blast
        then have "callback P w = (Panic (conversion_panic v t), w)"
          using p u st cm ro un by (simp add: callback_def Let_def)
        then show ?thesis by blast
      qed
    qed
  qed
qed

text \<open>The statement at the payload \<^verbatim>\<open>{}\<close>: the first assertion, on \<^verbatim>\<open>status\<close>, panics.\<close>

theorem malformed_payload_panics_witness:
  "Getenv (world_callback ''{}'') ''PAYLOAD'' \<noteq> '''' \<and>
   json_Unmarshal_map (test_platform response_200) (Getenv (world_callback ''{}'') ''PAYLOAD'')
     = Inr [] \<and>
   json_value (VMap []) \<and> malformed_payload [] \<and>
   callback (test_platform response_200) (world_callback ''{}'') =
     (Panic ''interface conversion: interface {} is nil, not string'', world_callback ''{}'')"
proof -
  let ?P = "test_platform response_200" and ?w = "world_callback ''{}''"
  have h1: "Getenv ?w ''PAYLOAD'' \<noteq> ''''" by (simp add: world_defs)
  have h2: "json_Unmarshal_map ?P (Getenv ?w ''PAYLOAD'') = Inr []"
    by (simp add: world_defs platform_defs payload_defs)
  have h3: "json_value (VMap [])" by simp
  have h4: "malformed_payload []"
    by (simp add: malformed_payload_def index_def is_string_def)
  from malformed_payload_panics[OF h1 h2 h3 h4] obtain v t where
    p: "callback ?P ?w = (Panic (conversion_panic v t), ?w)" by blast
  have "fst (callback ?P ?w) = Panic ''interface conversion: interface {} is nil, not string''"
    using h1 h2 by (simp add: callback_def Let_def index_def conversion_panic_def)
  with p have "callback ?P ?w =
     (Panic ''interface conversion: interface {} is nil, not string'', ?w)"
    by simp
  then show ?thesis using h1 h2 h3 h4 by simp
qed

section \<open>The flags of init\<close>

lemma post_env:
  assumes "e ''URL'' = env w ''URL''" "e ''API_TOKEN'' = env w ''API_TOKEN''"
  shows "post P apiPath requestBody (w\<lparr>env := e\<rparr>) =
           (fst (post P apiPath requestBody w), (snd (post P apiPath requestBody w))\<lparr>env := e\<rparr>)"
  using assms
  by (simp add: post_def defaultConfig_def Getenv_def Let_def
           split: sum.splits option.splits)

lemma writeStatus_env:
  assumes "e ''CLOUDBEES_STATUS'' = env w ''CLOUDBEES_STATUS''"
  shows "writeStatus P status message (w\<lparr>env := e\<rparr>) =
           (fst (writeStatus P status message w), (snd (writeStatus P status message w))\<lparr>env := e\<rparr>)"
  using assms
  by (simp add: writeStatus_def os_WriteFile_def Getenv_def Let_def
           split: sum.splits option.splits)

lemma markdown_env:
  "markdown P val (w\<lparr>env := e\<rparr>) = (fst (markdown P val w), (snd (markdown P val w))\<lparr>env := e\<rparr>)"
  by (simp add: markdown_def split: sum.splits)

lemma Printf_env: "Printf s (w\<lparr>env := e\<rparr>) = (Printf s w)\<lparr>env := e\<rparr>"
  by (simp add: Printf_def)

lemma print_api_failure_env:
  "print_api_failure P err resp (w\<lparr>env := e\<rparr>) = (print_api_failure P err resp w)\<lparr>env := e\<rparr>"
  by (simp add: print_api_failure_def Printf_def)

lemma post_env_kept: "env (snd (post P apiPath requestBody w)) = env w"
  by (simp add: post_def Let_def split: prod.splits sum.splits option.splits)

lemma markdown_env_kept: "env (snd (markdown P val w)) = env w"
  by (simp add: markdown_def split: sum.splits)

lemma init_env:
  assumes a: "e ''APPROVERS'' = env w ''APPROVERS''" "e ''INSTRUCTIONS'' = env w ''INSTRUCTIONS''"
    "e ''INPUTS'' = env w ''INPUTS''"
    and u: "e ''URL'' = env w ''URL''" "e ''API_TOKEN'' = env w ''API_TOKEN''"
    and s: "e ''CLOUDBEES_STATUS'' = env w ''CLOUDBEES_STATUS''"
    and f: "flag_text (w\<lparr>env := e\<rparr>) ''DISALLOW_LAUNCHED_BY_USER'' = flag_text w ''DISALLOW_LAUNCHED_BY_USER''"
    "flag_text (w\<lparr>env := e\<rparr>) ''NOTIFY_ALL_ELIGIBLE_USERS'' = flag_text w ''NOTIFY_ALL_ELIGIBLE_USERS''"
  shows "init P (w\<lparr>env := e\<rparr>) = (fst (init P w), (snd (init P w))\<lparr>env := e\<rparr>)"
proof (cases "strconv_ParseBool (flag_text w ''DISALLOW_LAUNCHED_BY_USER'')")
  case (Inl err)
  with f show ?thesis by (simp add: init_def flag_text_def Let_def)
next
  case d: (Inr d)
  show ?thesis
  proof (cases "strconv_ParseBool (flag_text w ''NOTIFY_ALL_ELIGIBLE_USERS'')")
    case (Inl err)
    with f d show ?thesis by (simp add: init_def flag_text_def Let_def)
  next
    case n: (Inr n)
    have g: "Getenv (w\<lparr>env := e\<rparr>) ''APPROVERS'' = Getenv w ''APPROVERS''"
      "Getenv (w\<lparr>env := e\<rparr>) ''INSTRUCTIONS'' = Getenv w ''INSTRUCTIONS''"
      "Getenv (w\<lparr>env := e\<rparr>) ''INPUTS'' = Getenv w ''INPUTS''"
      using a by (simp_all add: Getenv_def)
    define body where
      "body = init_body (Getenv w ''APPROVERS'') (Getenv w ''INSTRUCTIONS'') (Getenv w ''INPUTS'') d n"
    obtain resp eo w1 where p: "post P ''/v1/workflows/approval'' body w = ((resp, eo), w1)"
      by (metis prod.collapse)
    have p': "post P ''/v1/workflows/approval'' body (w\<lparr>env := e\<rparr>) = ((resp, eo), w1\<lparr>env := e\<rparr>)"
      using post_env[OF u, of P "''/v1/workflows/approval''" body] p by simp
    have e1: "env w1 = env w" using post_env_kept[of P "''/v1/workflows/approval''" body w] p by simp
    have ws: "writeStatus P st msg (x\<lparr>env := e\<rparr>) =
           (fst (writeStatus P st msg x), (snd (writeStatus P st msg x))\<lparr>env := e\<rparr>)"
      if "env x = env w" for st msg x
      using that s by (intro writeStatus_env) simp
    show ?thesis
    proof (cases eo)
      case (Some err)
      have i: "init P w =
          (case writeStatus P ''FAILED'' (init_failure_message P err) (print_api_failure P err resp w1) of
             (Some ferr, w2) \<Rightarrow> (Some ferr, w2)
           | (None, w2) \<Rightarrow> (Some err, w2))"
        using d n p Some by (simp add: init_def flag_text_def Let_def body_def)
      have i': "init P (w\<lparr>env := e\<rparr>) =
          (case writeStatus P ''FAILED'' (init_failure_message P err)
                  ((print_api_failure P err resp w1)\<lparr>env := e\<rparr>) of
             (Some ferr, w2) \<Rightarrow> (Some ferr, w2)
           | (None, w2) \<Rightarrow> (Some err, w2))"
        using d n p' Some f g
        by (simp add: init_def flag_text_def Let_def body_def print_api_failure_env)
      have "env (print_api_failure P err resp w1) = env w" using e1 by simp
      from ws[OF this] show ?thesis
        unfolding i i' by (simp split: prod.splits option.splits)
    next
      case None
      show ?thesis
      proof (cases "json_Unmarshal_response P resp")
        case (Inl err)
        have "init P w = (Some err, w1)"
          using d n p None Inl by (simp add: init_def flag_text_def Let_def body_def)
        moreover have "init P (w\<lparr>env := e\<rparr>) = (Some err, w1\<lparr>env := e\<rparr>)"
          using d n p' None Inl f g by (simp add: init_def flag_text_def Let_def body_def)
        ultimately show ?thesis by simp
      next
        case (Inr parsedResp)
        define w2 where "w2 = Printf (''Waiting for approval from one of the following: ''
                                   @ strings_Join (map UserName parsedResp) '','' @ NL) w1"
        have e2: "env w2 = env w" using e1 by (simp add: w2_def)
        show ?thesis
        proof (cases "Getenv w ''INSTRUCTIONS'' \<noteq> ''''")
          case True
          define w3 where "w3 = Printf (''Instructions:'' @ NL
                                  @ fst (markdown P (Getenv w ''INSTRUCTIONS'') w2) @ NL)
                        (snd (markdown P (Getenv w ''INSTRUCTIONS'') w2))"
          have e3: "env w3 = env w" using e2 by (simp add: w3_def markdown_env_kept)
          have "init P w = writeStatus P ''PENDING_APPROVAL'' ''Waiting for approval from approvers'' w3"
            using d n p None Inr True
            by (simp add: init_def flag_text_def Let_def body_def w2_def w3_def case_prod_beta)
          moreover have "init P (w\<lparr>env := e\<rparr>) =
              writeStatus P ''PENDING_APPROVAL'' ''Waiting for approval from approvers'' (w3\<lparr>env := e\<rparr>)"
            using d n p' None Inr True f g
            by (simp add: init_def flag_text_def Let_def body_def w2_def w3_def case_prod_beta
                  Printf_env markdown_env)
          ultimately show ?thesis using ws[OF e3] by simp
        next
          case False
          have "init P w = writeStatus P ''PENDING_APPROVAL'' ''Waiting for approval from approvers'' w2"
            using d n p None Inr False
            by (simp add: init_def flag_text_def Let_def body_def w2_def)
          moreover have "init P (w\<lparr>env := e\<rparr>) =
              writeStatus P ''PENDING_APPROVAL'' ''Waiting for approval from approvers'' (w2\<lparr>env := e\<rparr>)"
            using d n p' None Inr False f g
            by (simp add: init_def flag_text_def Let_def body_def w2_def Printf_env)
          ultimately show ?thesis using ws[OF e2] by simp
        qed
      qed
    qed
  qed
qed

lemma init_env_kept: "env (snd (init P w)) = env w"
proof -
  obtain r w' where iw: "init P w = (r, w')" by (cases "init P w")
  have "init P (w\<lparr>env := env w\<rparr>) = (fst (init P w), (snd (init P w))\<lparr>env := env w\<rparr>)"
    by (rule init_env) simp_all
  with iw have "w' = w'\<lparr>env := env w\<rparr>" by simp
  then have "env w' = env (w'\<lparr>env := env w\<rparr>)" by (rule arg_cong[where f=env])
  then show ?thesis using iw by simp
qed

lemma unset_flag_as_false:
  assumes "Getenv w name = ''''"
    and "name = ''DISALLOW_LAUNCHED_BY_USER'' \<or> name = ''NOTIFY_ALL_ELIGIBLE_USERS''"
  shows "init P w =
           (fst (init P (w\<lparr>env := (env w)(name := ''false'')\<rparr>)),
            (snd (init P (w\<lparr>env := (env w)(name := ''false'')\<rparr>)))\<lparr>env := env w\<rparr>)"
proof -
  let ?e = "(env w)(name := ''false'')"
  have i: "init P (w\<lparr>env := ?e\<rparr>) = (fst (init P w), (snd (init P w))\<lparr>env := ?e\<rparr>)"
    using assms by (intro init_env) (auto simp: flag_text_def Getenv_def)
  obtain r w' where iw: "init P w = (r, w')" by (cases "init P w")
  from init_env_kept[of P w] iw have "env w' = env w" by simp
  then have "w'\<lparr>env := env w\<rparr> = w'" by simp
  then show ?thesis using i iw by simp
qed

text \<open>
  Claim C6.  When \<^verbatim>\<open>DISALLOW_LAUNCHED_BY_USER\<close> is not empty and does not parse as a
  boolean, \<^verbatim>\<open>init\<close> returns exactly the error of \<^verbatim>\<open>strconv.ParseBool\<close> and leaves the
  world as it was: no request, no file, no line.  The same holds for
  \<^verbatim>\<open>NOTIFY_ALL_ELIGIBLE_USERS\<close> when the first flag parses.  An empty flag is treated as
  \<^verbatim>\<open>false\<close>: \<^verbatim>\<open>init\<close> does what it does when the variable holds the text
  \<^verbatim>\<open>false\<close>.
\<close>

theorem malformed_flag_stops_init:
  "(Getenv w ''DISALLOW_LAUNCHED_BY_USER'' \<noteq> '''' \<and>
    strconv_ParseBool (Getenv w ''DISALLOW_LAUNCHED_BY_USER'') = Inl err \<longrightarrow>
      init P w = (Some err, w) \<and>
      err = NumError ''ParseBool'' (Getenv w ''DISALLOW_LAUNCHED_BY_USER'')) \<and>
   (strconv_ParseBool (flag_text w ''DISALLOW_LAUNCHED_BY_USER'') = Inr d \<and>
    Getenv w ''NOTIFY_ALL_ELIGIBLE_USERS'' \<noteq> '''' \<and>
    strconv_ParseBool (Getenv w ''NOTIFY_ALL_ELIGIBLE_USERS'') = Inl err' \<longrightarrow>
      init P w = (Some err', w) \<and>
      err' = NumError ''ParseBool'' (Getenv w ''NOTIFY_ALL_ELIGIBLE_USERS'')) \<and>
   (Getenv w ''DISALLOW_LAUNCHED_BY_USER'' = '''' \<longrightarrow>
      init P w =
        (fst (init P (w\<lparr>env := (env w)(''DISALLOW_LAUNCHED_BY_USER'' := ''false'')\<rparr>)),
         (snd (init P (w\<lparr>env := (env w)(''DISALLOW_LAUNCHED_BY_USER'' := ''false'')\<rparr>)))
           \<lparr>env := env w\<rparr>)) \<and>
   (Getenv w ''NOTIFY_ALL_ELIGIBLE_USERS'' = '''' \<longrightarrow>
      init P w =
        (fst (init P (w\<lparr>env := (env w)(''NOTIFY_ALL_ELIGIBLE_USERS'' := ''false'')\<rparr>)),
         (snd (init P (w\<lparr>env := (env w)(''NOTIFY_ALL_ELIGIBLE_USERS'' := ''false'')\<rparr>)))
           \<lparr>env := env w\<rparr>))"
proof (intro conjI impI)
  assume "Getenv w ''DISALLOW_LAUNCHED_BY_USER'' \<noteq> '''' \<and>
    strconv_ParseBool (Getenv w ''DISALLOW_LAUNCHED_BY_USER'') = Inl err"
  then show "init P w = (Some err, w)"
    by (simp add: init_def Let_def)
next
  assume "Getenv w ''DISALLOW_LAUNCHED_BY_USER'' \<noteq> '''' \<and>
    strconv_ParseBool (Getenv w ''DISALLOW_LAUNCHED_BY_USER'') = Inl err"
  then show "err = NumError ''ParseBool'' (Getenv w ''DISALLOW_LAUNCHED_BY_USER'')"
    by (auto simp: strconv_ParseBool_def split: if_splits)
next
  assume "strconv_ParseBool (flag_text w ''DISALLOW_LAUNCHED_BY_USER'') = Inr d \<and>
    Getenv w ''NOTIFY_ALL_ELIGIBLE_USERS'' \<noteq> '''' \<and>
    strconv_ParseBool (Getenv w ''NOTIFY_ALL_ELIGIBLE_USERS'') = Inl err'"
  then show "init P w = (Some err', w)"
    by (simp add: init_def flag_text_def Let_def)
next
  assume "strconv_ParseBool (flag_text w ''DISALLOW_LAUNCHED_BY_USER'') = Inr d \<and>
    Getenv w ''NOTIFY_ALL_ELIGIBLE_USERS'' \<noteq> '''' \<and>
    strconv_ParseBool (Getenv w ''NOTIFY_ALL_ELIGIBLE_USERS'') = Inl err'"
  then show "err' = NumError ''ParseBool'' (Getenv w ''NOTIFY_ALL_ELIGIBLE_USERS'')"
    by (auto simp: strconv_ParseBool_def split: if_splits)
next
  assume "Getenv w ''DISALLOW_LAUNCHED_BY_USER'' = ''''"
  then show "init P w =
        (fst (init P (w\<lparr>env := (env w)(''DISALLOW_LAUNCHED_BY_USER'' := ''false'')\<rparr>)),
         (snd (init P (w\<lparr>env := (env w)(''DISALLOW_LAUNCHED_BY_USER'' := ''false'')\<rparr>)))
           \<lparr>env := env w\<rparr>)"
    by (rule unset_flag_as_false) simp
next
  assume "Getenv w ''NOTIFY_ALL_ELIGIBLE_USERS'' = ''''"
  then show "init P w =
        (fst (init P (w\<lparr>env := (env w)(''NOTIFY_ALL_ELIGIBLE_USERS'' := ''false'')\<rparr>)),
         (snd (init P (w\<lparr>env := (env w)(''NOTIFY_ALL_ELIGIBLE_USERS'' := ''false'')\<rparr>)))
           \<lparr>env := env w\<rparr>)"
    by (rule unset_flag_as_false) simp
qed

text \<open>
  The statement at the flag text \<^verbatim>\<open>invalid boolean\<close> of the package's tests, with the
  text of the error, and at an unset second flag.
\<close>

theorem malformed_flag_stops_init_witness:
  "Getenv world_init_bad_flag ''DISALLOW_LAUNCHED_BY_USER'' \<noteq> '''' \<and>
   strconv_ParseBool (Getenv world_init_bad_flag ''DISALLOW_LAUNCHED_BY_USER'') =
     Inl (NumError ''ParseBool'' ''invalid boolean'') \<and>
   init (test_platform response_200) world_init_bad_flag =
     (Some (NumError ''ParseBool'' ''invalid boolean''), world_init_bad_flag) \<and>
   error_text (test_platform response_200) (NumError ''ParseBool'' ''invalid boolean'') =
     ''strconv.ParseBool: parsing '' @ q ''invalid boolean'' @ '': invalid syntax'' \<and>
   Getenv world_init ''NOTIFY_ALL_ELIGIBLE_USERS'' = '''' \<and>
   init (test_platform response_200) world_init =
     (fst (init (test_platform response_200)
             (world_init\<lparr>env := (env world_init)(''NOTIFY_ALL_ELIGIBLE_USERS'' := ''false'')\<rparr>)),
      (snd (init (test_platform response_200)
              (world_init\<lparr>env := (env world_init)(''NOTIFY_ALL_ELIGIBLE_USERS'' := ''false'')\<rparr>)))
        \<lparr>env := env world_init\<rparr>)"
proof -
  let ?P = "test_platform response_200"
  have h1: "Getenv world_init_bad_flag ''DISALLOW_LAUNCHED_BY_USER'' \<noteq> ''''"
    and h2: "strconv_ParseBool (Getenv world_init_bad_flag ''DISALLOW_LAUNCHED_BY_USER'') =
               Inl (NumError ''ParseBool'' ''invalid boolean'')"
    by (simp_all add: world_init_bad_flag_def world_defs strconv_ParseBool_def)
  have h3: "Getenv world_init ''NOTIFY_ALL_ELIGIBLE_USERS'' = ''''"
    by (simp add: world_defs)
  have t: "error_text ?P (NumError ''ParseBool'' ''invalid boolean'') =
     ''strconv.ParseBool: parsing '' @ q ''invalid boolean'' @ '': invalid syntax''"
    by (simp add: platform_defs)
  note inst1 = malformed_flag_stops_init
    [of world_init_bad_flag "NumError ''ParseBool'' ''invalid boolean''" ?P]
  note inst2 = malformed_flag_stops_init [of world_init _ ?P]
  from inst1 h1 h2 have "init ?P world_init_bad_flag =
     (Some (NumError ''ParseBool'' ''invalid boolean''), world_init_bad_flag)"
    by blast
  moreover from inst2 h3 have "init ?P world_init =
     (fst (init ?P (world_init\<lparr>env := (env world_init)(''NOTIFY_ALL_ELIGIBLE_USERS'' := ''false'')\<rparr>)),
      (snd (init ?P (world_init\<lparr>env := (env world_init)(''NOTIFY_ALL_ELIGIBLE_USERS'' := ''false'')\<rparr>)))
        \<lparr>env := env world_init\<rparr>)"
    by blast
  ultimately show ?thesis using h1 h2 h3 t by simp
qed

section \<open>The request body of init\<close>

lemma Split_from_nonempty: "Split_from cur s sep \<noteq> []"
  by (induction s arbitrary: cur) auto

lemma strings_Join_Cons:
  "ys \<noteq> [] \<Longrightarrow> strings_Join (x # ys) sep = x @ sep @ strings_Join ys sep"
  by (cases ys) simp_all

lemma Join_Split_from:
  "strings_Join (Split_from cur s sep) [sep] = rev cur @ s"
  by (induction s arbitrary: cur) (simp_all add: strings_Join_Cons Split_from_nonempty)

lemma Split_from_no_sep:
  "sep \<notin> set cur \<Longrightarrow> \<forall>x \<in> set (Split_from cur s sep). sep \<notin> set x"
proof (induction s arbitrary: cur)
  case Nil
  then show ?case by simp
next
  case (Cons c cs)
  show ?case
  proof (cases "c = sep")
    case True
    have "\<forall>x \<in> set (Split_from [] cs sep). sep \<notin> set x"
      by (rule Cons.IH) simp
    with True Cons.prems show ?thesis by simp
  next
    case False
    have "\<forall>x \<in> set (Split_from (c # cur) cs sep). sep \<notin> set x"
      by (rule Cons.IH) (use False Cons.prems in auto)
    with False show ?thesis by simp
  qed
qed

lemma init_body_fields:
  "map_of (init_body approvers instructions inputs d n) k =
     (if k = ''approvalInputs'' \<and> inputs \<noteq> '''' then Some (VString inputs)
      else if k = ''instructions'' \<and> instructions \<noteq> '''' then Some (VString instructions)
      else if k = ''approvers'' \<and> approvers \<noteq> ''''
           then Some (VStrings (strings_Split approvers (CHR '','')))
      else if k = ''disallowLaunchedByUser'' then Some (VBool d)
      else if k = ''notifyEligibleUsers'' then Some (VBool n)
      else None)"
  by (simp add: init_body_def Let_def update_conv')

lemma init_hands_request:
  assumes d: "strconv_ParseBool (flag_text w ''DISALLOW_LAUNCHED_BY_USER'') = Inr d"
    and n: "strconv_ParseBool (flag_text w ''NOTIFY_ALL_ELIGIBLE_USERS'') = Inr n"
    and og: "outgoing_request P ''/v1/workflows/approval''
               (init_body (Getenv w ''APPROVERS'') (Getenv w ''INSTRUCTIONS'') (Getenv w ''INPUTS'') d n) w
             = Some req"
  shows "requests (snd (init P w)) = requests w @ [req]"
proof -
  define body where
    "body = init_body (Getenv w ''APPROVERS'') (Getenv w ''INSTRUCTIONS'') (Getenv w ''INPUTS'') d n"
  obtain resp eo where p: "post P ''/v1/workflows/approval'' body w = ((resp, eo), posted w req)"
    using post_reached[OF og[folded body_def]]
    by (auto split: sum.splits if_splits)
  show ?thesis
  proof (cases eo)
    case (Some err)
    have "init P w =
          (case writeStatus P ''FAILED'' (init_failure_message P err)
                  (print_api_failure P err resp (posted w req)) of
             (Some ferr, w2) \<Rightarrow> (Some ferr, w2)
           | (None, w2) \<Rightarrow> (Some err, w2))"
      using d n p Some by (simp add: init_def flag_text_def Let_def body_def)
    then show ?thesis
      using writeStatus_keeps(4)[of P "''FAILED''" "init_failure_message P err"
              "print_api_failure P err resp (posted w req)"]
      by (auto split: prod.splits option.splits)
  next
    case None
    show ?thesis
    proof (cases "json_Unmarshal_response P resp")
      case (Inl err)
      have "init P w = (Some err, posted w req)"
        using d n p None Inl by (simp add: init_def flag_text_def Let_def body_def)
      then show ?thesis by simp
    next
      case (Inr parsedResp)
      define w2 where "w2 = Printf (''Waiting for approval from one of the following: ''
                                 @ strings_Join (map UserName parsedResp) '','' @ NL) (posted w req)"
      define w3 where "w3 = (if Getenv w ''INSTRUCTIONS'' \<noteq> ''''
                             then Printf (''Instructions:'' @ NL
                                    @ fst (markdown P (Getenv w ''INSTRUCTIONS'') w2) @ NL)
                                    (snd (markdown P (Getenv w ''INSTRUCTIONS'') w2))
                             else w2)"
      have m: "requests (snd (markdown P v x)) = requests x" for v x
        by (simp add: markdown_def split: sum.splits)
      have r3: "requests w3 = requests w @ [req]"
        by (simp add: w3_def w2_def m)
      have "init P w = writeStatus P ''PENDING_APPROVAL'' ''Waiting for approval from approvers'' w3"
        using d n p None Inr
        by (simp add: init_def flag_text_def Let_def body_def w2_def w3_def case_prod_beta)
      then show ?thesis using writeStatus_keeps(4)[of P _ _ w3] r3 by simp
    qed
  qed
qed

text \<open>
  Claim C7.  The request body of \<^verbatim>\<open>init\<close> always holds the two boolean fields; it holds
  \<^verbatim>\<open>approvers\<close>, \<^verbatim>\<open>instructions\<close> and \<^verbatim>\<open>approvalInputs\<close> exactly when the variable
  each comes from is not empty, and holds no other field.  The \<^verbatim>\<open>approvers\<close> field is
  the split of the text at its commas: joining the parts with commas gives the text back
  and no part holds a comma, so order is kept and nothing is removed or trimmed.  When
  the flags parse and the request reaches the client, this body, encoded, is the body of
  the one request handed to the client.
\<close>

theorem init_request_body_fields:
  "map_of (init_body approvers instructions inputs d n) ''disallowLaunchedByUser'' = Some (VBool d) \<and>
   map_of (init_body approvers instructions inputs d n) ''notifyEligibleUsers'' = Some (VBool n) \<and>
   map_of (init_body approvers instructions inputs d n) ''approvers'' =
     (if approvers = '''' then None else Some (VStrings (strings_Split approvers (CHR '','')))) \<and>
   map_of (init_body approvers instructions inputs d n) ''instructions'' =
     (if instructions = '''' then None else Some (VString instructions)) \<and>
   map_of (init_body approvers instructions inputs d n) ''approvalInputs'' =
     (if inputs = '''' then None else Some (VString inputs)) \<and>
   dom (map_of (init_body approvers instructions inputs d n)) \<subseteq>
     {''disallowLaunchedByUser'', ''notifyEligibleUsers'', ''approvers'', ''instructions'',
      ''approvalInputs''} \<and>
   strings_Join (strings_Split approvers (CHR '','')) '','' = approvers \<and>
   (\<forall>x \<in> set (strings_Split approvers (CHR '','')). CHR '','' \<notin> set x) \<and>
   (strconv_ParseBool (flag_text w ''DISALLOW_LAUNCHED_BY_USER'') = Inr d \<and>
    strconv_ParseBool (flag_text w ''NOTIFY_ALL_ELIGIBLE_USERS'') = Inr n \<and>
    outgoing_request P ''/v1/workflows/approval''
      (init_body (Getenv w ''APPROVERS'') (Getenv w ''INSTRUCTIONS'') (Getenv w ''INPUTS'') d n) w
      = Some req
    \<longrightarrow> requests (snd (init P w)) = requests w @ [req] \<and>
        json_Marshal P (VMap (init_body (Getenv w ''APPROVERS'') (Getenv w ''INSTRUCTIONS'')
                                (Getenv w ''INPUTS'') d n)) = Inr (req_body req))"
proof (intro conjI)
  show "dom (map_of (init_body approvers instructions inputs d n)) \<subseteq>
     {''disallowLaunchedByUser'', ''notifyEligibleUsers'', ''approvers'', ''instructions'',
      ''approvalInputs''}"
    by (auto simp: init_body_fields split: if_splits)
  show "strings_Join (strings_Split approvers (CHR '','')) '','' = approvers"
    using Join_Split_from[of "[]" approvers "CHR '',''"] by (simp add: strings_Split_def)
  show "\<forall>x \<in> set (strings_Split approvers (CHR '','')). CHR '','' \<notin> set x"
    using Split_from_no_sep[of "CHR '',''" "[]" approvers] by (simp add: strings_Split_def)
  show "strconv_ParseBool (flag_text w ''DISALLOW_LAUNCHED_BY_USER'') = Inr d \<and>
    strconv_ParseBool (flag_text w ''NOTIFY_ALL_ELIGIBLE_USERS'') = Inr n \<and>
    outgoing_request P ''/v1/workflows/approval''
      (init_body (Getenv w ''APPROVERS'') (Getenv w ''INSTRUCTIONS'') (Getenv w ''INPUTS'') d n) w
      = Some req
    \<longrightarrow> requests (snd (init P w)) = requests w @ [req] \<and>
        json_Marshal P (VMap (init_body (Getenv w ''APPROVERS'') (Getenv w ''INSTRUCTIONS'')
                                (Getenv w ''INPUTS'') d n)) = Inr (req_body req)"
    using init_hands_request outgoing_request_body by blast
qed (simp_all add: init_body_fields)

text \<open>
  The statement at \<^verbatim>\<open>APPROVERS="123,user@mail.com"\<close>: the field is
  \<^verbatim>\<open>["123","user@mail.com"]\<close>; and the split of a text with a blank and an empty part.
\<close>

theorem init_request_body_fields_witness:
  "strconv_ParseBool (flag_text world_init ''DISALLOW_LAUNCHED_BY_USER'') = Inr False \<and>
   strconv_ParseBool (flag_text world_init ''NOTIFY_ALL_ELIGIBLE_USERS'') = Inr False \<and>
   outgoing_request (test_platform response_200) ''/v1/workflows/approval''
     (init_body (Getenv world_init ''APPROVERS'') (Getenv world_init ''INSTRUCTIONS'')
        (Getenv world_init ''INPUTS'') False False) world_init = Some init_request \<and>
   requests (snd (init (test_platform response_200) world_init)) = [init_request] \<and>
   req_body init_request =
     ''{'' @ q ''approvers'' @ '':['' @ q ''123'' @ '','' @ q ''user@mail.com'' @ ''],''
     @ q ''disallowLaunchedByUser'' @ '':false,'' @ q ''instructions'' @ '':'' @ q ''check it''
     @ '','' @ q ''notifyEligibleUsers'' @ '':false}'' \<and>
   map_of (init_body ''123,user@mail.com'' ''check it'' '''' False False) ''approvers'' =
     Some (VStrings [''123'', ''user@mail.com'']) \<and>
   map_of (init_body ''123,user@mail.com'' ''check it'' '''' False False) ''approvalInputs'' = None \<and>
   strings_Split ''a, b,,a'' (CHR '','') = [''a'', '' b'', '''', ''a'']"
proof -
  let ?P = "test_platform response_200"
  have i1: "strconv_ParseBool (flag_text world_init ''DISALLOW_LAUNCHED_BY_USER'') = Inr False"
    and i2: "strconv_ParseBool (flag_text world_init ''NOTIFY_ALL_ELIGIBLE_USERS'') = Inr False"
    by (simp_all add: flag_text_def world_defs strconv_ParseBool_def)
  have i3: "outgoing_request ?P ''/v1/workflows/approval''
     (init_body (Getenv world_init ''APPROVERS'') (Getenv world_init ''INSTRUCTIONS'')
        (Getenv world_init ''INPUTS'') False False) world_init = Some init_request"
    by (simp add: outgoing_request_def defaultConfig_def init_request_def world_defs platform_defs)
  have w: "requests world_init = []" by (simp add: world_defs)
  have s: "strings_Split ''123,user@mail.com'' (CHR '','') = [''123'', ''user@mail.com'']"
    "strings_Split ''a, b,,a'' (CHR '','') = [''a'', '' b'', '''', ''a'']"
    by (simp_all add: strings_Split_def)
  have b: "req_body init_request =
     ''{'' @ q ''approvers'' @ '':['' @ q ''123'' @ '','' @ q ''user@mail.com'' @ ''],''
     @ q ''disallowLaunchedByUser'' @ '':false,'' @ q ''instructions'' @ '':'' @ q ''check it''
     @ '','' @ q ''notifyEligibleUsers'' @ '':false}''"
    by (simp add: init_request_def new_request_def init_body_def strings_Split_def encode_defs)
  note inst = init_request_body_fields
    [of "''123,user@mail.com''" "''check it''" "''''" False False world_init ?P init_request]
  from inst i1 i2 i3 have "requests (snd (init ?P world_init)) = requests world_init @ [init_request]"
    by blast
  moreover from inst have
    "map_of (init_body ''123,user@mail.com'' ''check it'' '''' False False) ''approvers'' =
       Some (VStrings (strings_Split ''123,user@mail.com'' (CHR '','')))"
    "map_of (init_body ''123,user@mail.com'' ''check it'' '''' False False) ''approvalInputs'' = None"
    by simp_all
  ultimately show ?thesis using i1 i2 i3 w s b by simp
qed

section \<open>Cancellation\<close>

lemma post_then_report:
  fixes P a b w0
  defines "res \<equiv> (case post P a b w0 of
                     ((resp, Some err), w1) \<Rightarrow> (Some err, print_api_failure P err resp w1)
                   | ((resp, None), w1) \<Rightarrow> (None, w1))"
  shows "files (snd res) = files w0 \<and>
         (\<exists>rest. printed (snd res) = printed w0 @ rest) \<and>
         (\<forall>req. outgoing_request P a b w0 = Some req \<longrightarrow> requests (snd res) = requests w0 @ [req])"
proof -
  obtain resp eo w1 where p: "post P a b w0 = ((resp, eo), w1)"
    by (metis prod.collapse)
  have r: "res = (case eo of Some err \<Rightarrow> (Some err, print_api_failure P err resp w1)
                   | None \<Rightarrow> (None, w1))"
    unfolding res_def p by simp
  have f: "files w1 = files w0" and pr: "printed w1 = printed w0"
    using post_keeps(1)[of P a b w0] post_keeps(3)[of P a b w0] p by simp_all
  have "files (snd res) = files w0"
    unfolding r using f by (cases eo) simp_all
  moreover have "\<exists>rest. printed (snd res) = printed w0 @ rest"
    unfolding r using pr by (cases eo) simp_all
  moreover have "requests (snd res) = requests w0 @ [req]"
    if og: "outgoing_request P a b w0 = Some req" for req
  proof -
    from post_reached_world[OF og] p have "w1 = posted w0 req" by simp
    then show ?thesis unfolding r by (cases eo) simp_all
  qed
  ultimately show ?thesis by blast
qed

lemma cancel_aborted:
  assumes "Getenv w ''CANCELLATION_REASON'' = ''CANCELLED''"
  shows "cancel P w =
     (case post P ''/v1/workflows/approval/status''
              [(''status'', VString ''UPDATE_MANUAL_APPROVAL_STATUS_ABORTED'')]
              (Println ''Cancelling the manual approval request''
                       (Println ''Workflow aborted by user'' w)) of
        ((resp, Some err), w1) \<Rightarrow> (Some err, print_api_failure P err resp w1)
      | ((resp, None), w1) \<Rightarrow> (None, w1))"
  using assms by (simp add: cancel_def Let_def)

lemma cancel_timed_out:
  assumes "Getenv w ''CANCELLATION_REASON'' \<noteq> ''''"
    and "Getenv w ''CANCELLATION_REASON'' \<noteq> ''CANCELLED''"
  shows "cancel P w =
     (case post P ''/v1/workflows/approval/status''
              [(''status'', VString ''UPDATE_MANUAL_APPROVAL_STATUS_TIMED_OUT'')]
              (Println ''Workflow approval response was not received within allotted time.''
                       (Println ''Workflow timed out'' w)) of
        ((resp, Some err), w1) \<Rightarrow> (Some err, print_api_failure P err resp w1)
      | ((resp, None), w1) \<Rightarrow> (None, w1))"
  using assms by (simp add: cancel_def Let_def)

lemma cancel_files: "files (snd (cancel P w)) = files w"
proof (cases "Getenv w ''CANCELLATION_REASON'' = ''''")
  case True
  then show ?thesis by (simp add: cancel_def)
next
  case False
  show ?thesis
  proof (cases "Getenv w ''CANCELLATION_REASON'' = ''CANCELLED''")
    case True
    show ?thesis
      unfolding cancel_aborted[OF True]
      using post_then_report[of P "''/v1/workflows/approval/status''"
              "[(''status'', VString ''UPDATE_MANUAL_APPROVAL_STATUS_ABORTED'')]"
              "Println ''Cancelling the manual approval request''
                       (Println ''Workflow aborted by user'' w)"]
      by simp
  next
    case c: False
    show ?thesis
      unfolding cancel_timed_out[OF False c]
      using post_then_report[of P "''/v1/workflows/approval/status''"
              "[(''status'', VString ''UPDATE_MANUAL_APPROVAL_STATUS_TIMED_OUT'')]"
              "Println ''Workflow approval response was not received within allotted time.''
                       (Println ''Workflow timed out'' w)"]
      by simp
  qed
qed

lemma cancel_general:
  assumes c: "cancel P w =
     (case post P a b w0 of
        ((resp, Some err), w1) \<Rightarrow> (Some err, print_api_failure P err resp w1)
      | ((resp, None), w1) \<Rightarrow> (None, w1))"
    and e: "env w0 = env w" and pr: "printed w0 = printed w @ ls"
    and rq: "requests w0 = requests w"
  shows "(\<exists>rest. printed (snd (cancel P w)) = printed w @ ls @ rest) \<and>
         (\<forall>req. outgoing_request P a b w = Some req \<longrightarrow>
                requests (snd (cancel P w)) = requests w @ [req] \<and>
                json_Marshal P (VMap b) = Inr (req_body req))"
proof -
  have r: "files (snd (cancel P w)) = files w0 \<and>
         (\<exists>rest. printed (snd (cancel P w)) = printed w0 @ rest) \<and>
         (\<forall>req. outgoing_request P a b w0 = Some req \<longrightarrow>
                requests (snd (cancel P w)) = requests w0 @ [req])"
    unfolding c by (rule post_then_report)
  then obtain rest where "printed (snd (cancel P w)) = printed w0 @ rest" by blast
  then have "printed (snd (cancel P w)) = printed w @ ls @ rest" by (simp add: pr)
  then have 1: "\<exists>rest. printed (snd (cancel P w)) = printed w @ ls @ rest" by blast
  have 2: "requests (snd (cancel P w)) = requests w @ [req] \<and>
           json_Marshal P (VMap b) = Inr (req_body req)"
    if og: "outgoing_request P a b w = Some req" for req
  proof -
    from og outgoing_request_env[OF e, of P a b] have "outgoing_request P a b w0 = Some req"
      by simp
    with r have "requests (snd (cancel P w)) = requests w0 @ [req]" by blast
    with rq outgoing_request_body[OF og] show ?thesis by simp
  qed
  from 1 2 show ?thesis by blast
qed

text \<open>
  Claim C8.  \<^verbatim>\<open>cancel\<close> never changes a file.  With \<^verbatim>\<open>CANCELLATION_REASON\<close> equal to
  \<^verbatim>\<open>CANCELLED\<close> it first prints the two lines of an abort and the request that reaches
  the client has the encoded body
  \<^verbatim>\<open>{"status":"UPDATE_MANUAL_APPROVAL_STATUS_ABORTED"}\<close>; with any other non-empty reason
  it first prints the two lines of a timeout and the body is
  \<^verbatim>\<open>{"status":"UPDATE_MANUAL_APPROVAL_STATUS_TIMED_OUT"}\<close>.
\<close>

theorem cancel_posts_status_and_writes_no_file:
  "files (snd (cancel P w)) = files w \<and>
   (Getenv w ''CANCELLATION_REASON'' = ''CANCELLED'' \<longrightarrow>
      (\<exists>rest. printed (snd (cancel P w)) = printed w @
         [''Workflow aborted by user'' @ NL, ''Cancelling the manual approval request'' @ NL]
         @ rest) \<and>
      (\<forall>req. outgoing_request P ''/v1/workflows/approval/status''
                [(''status'', VString ''UPDATE_MANUAL_APPROVAL_STATUS_ABORTED'')] w = Some req \<longrightarrow>
             requests (snd (cancel P w)) = requests w @ [req] \<and>
             json_Marshal P (VMap [(''status'', VString ''UPDATE_MANUAL_APPROVAL_STATUS_ABORTED'')])
               = Inr (req_body req))) \<and>
   (Getenv w ''CANCELLATION_REASON'' \<noteq> '''' \<and>
    Getenv w ''CANCELLATION_REASON'' \<noteq> ''CANCELLED'' \<longrightarrow>
      (\<exists>rest. printed (snd (cancel P w)) = printed w @
         [''Workflow timed out'' @ NL,
          ''Workflow approval response was not received within allotted time.'' @ NL]
         @ rest) \<and>
      (\<forall>req. outgoing_request P ''/v1/workflows/approval/status''
                [(''status'', VString ''UPDATE_MANUAL_APPROVAL_STATUS_TIMED_OUT'')] w = Some req \<longrightarrow>
             requests (snd (cancel P w)) = requests w @ [req] \<and>
             json_Marshal P (VMap [(''status'', VString ''UPDATE_MANUAL_APPROVAL_STATUS_TIMED_OUT'')])
               = Inr (req_body req)))"
proof -
  have 1: "files (snd (cancel P w)) = files w" by (rule cancel_files)
  have 2: "(\<exists>rest. printed (snd (cancel P w)) = printed w @
         [''Workflow aborted by user'' @ NL, ''Cancelling the manual approval request'' @ NL]
         @ rest) \<and>
      (\<forall>req. outgoing_request P ''/v1/workflows/approval/status''
                [(''status'', VString ''UPDATE_MANUAL_APPROVAL_STATUS_ABORTED'')] w = Some req \<longrightarrow>
             requests (snd (cancel P w)) = requests w @ [req] \<and>
             json_Marshal P (VMap [(''status'', VString ''UPDATE_MANUAL_APPROVAL_STATUS_ABORTED'')])
               = Inr (req_body req))"
    if a: "Getenv w ''CANCELLATION_REASON'' = ''CANCELLED''"
    by (rule cancel_general[OF cancel_aborted[OF a]]) simp_all
  have 3: "(\<exists>rest. printed (snd (cancel P w)) = printed w @
         [''Workflow timed out'' @ NL,
          ''Workflow approval response was not received within allotted time.'' @ NL]
         @ rest) \<and>
      (\<forall>req. outgoing_request P ''/v1/workflows/approval/status''
                [(''status'', VString ''UPDATE_MANUAL_APPROVAL_STATUS_TIMED_OUT'')] w = Some req \<longrightarrow>
             requests (snd (cancel P w)) = requests w @ [req] \<and>
             json_Marshal P (VMap [(''status'', VString ''UPDATE_MANUAL_APPROVAL_STATUS_TIMED_OUT'')])
               = Inr (req_body req))"
    if a: "Getenv w ''CANCELLATION_REASON'' \<noteq> ''''"
      and b: "Getenv w ''CANCELLATION_REASON'' \<noteq> ''CANCELLED''"
    by (rule cancel_general[OF cancel_timed_out[OF a b]]) simp_all
  from 1 2 3 show ?thesis by blast
qed

text \<open>The statement at the reasons \<^verbatim>\<open>TIMED_OUT\<close> and \<^verbatim>\<open>CANCELLED\<close>.\<close>

theorem cancel_posts_status_and_writes_no_file_witness:
  "Getenv (world_cancel ''TIMED_OUT'') ''CANCELLATION_REASON'' \<noteq> '''' \<and>
   Getenv (world_cancel ''TIMED_OUT'') ''CANCELLATION_REASON'' \<noteq> ''CANCELLED'' \<and>
   outgoing_request (test_platform response_200) ''/v1/workflows/approval/status''
     [(''status'', VString ''UPDATE_MANUAL_APPROVAL_STATUS_TIMED_OUT'')] (world_cancel ''TIMED_OUT'')
     = Some (status_request [(''status'', VString ''UPDATE_MANUAL_APPROVAL_STATUS_TIMED_OUT'')]) \<and>
   requests (snd (cancel (test_platform response_200) (world_cancel ''TIMED_OUT''))) =
     [status_request [(''status'', VString ''UPDATE_MANUAL_APPROVAL_STATUS_TIMED_OUT'')]] \<and>
   req_body (status_request [(''status'', VString ''UPDATE_MANUAL_APPROVAL_STATUS_TIMED_OUT'')]) =
     ''{'' @ q ''status'' @ '':'' @ q ''UPDATE_MANUAL_APPROVAL_STATUS_TIMED_OUT'' @ ''}'' \<and>
   files (snd (cancel (test_platform response_200) (world_cancel ''TIMED_OUT''))) = Map.empty \<and>
   cancel (test_platform response_200) (world_cancel ''TIMED_OUT'') =
     (None, (world_cancel ''TIMED_OUT'')
        \<lparr>printed := [''Workflow timed out'' @ NL,
            ''Workflow approval response was not received within allotted time.'' @ NL],
         requests := [status_request
            [(''status'', VString ''UPDATE_MANUAL_APPROVAL_STATUS_TIMED_OUT'')]]\<rparr>) \<and>
   Getenv (world_cancel ''CANCELLED'') ''CANCELLATION_REASON'' = ''CANCELLED'' \<and>
   outgoing_request (test_platform response_200) ''/v1/workflows/approval/status''
     [(''status'', VString ''UPDATE_MANUAL_APPROVAL_STATUS_ABORTED'')] (world_cancel ''CANCELLED'')
     = Some (status_request [(''status'', VString ''UPDATE_MANUAL_APPROVAL_STATUS_ABORTED'')]) \<and>
   requests (snd (cancel (test_platform response_200) (world_cancel ''CANCELLED''))) =
     [status_request [(''status'', VString ''UPDATE_MANUAL_APPROVAL_STATUS_ABORTED'')]]"
proof -
  let ?P = "test_platform response_200"
  let ?t = "world_cancel ''TIMED_OUT''" and ?c = "world_cancel ''CANCELLED''"
  have h1: "Getenv ?t ''CANCELLATION_REASON'' \<noteq> ''''"
    and h2: "Getenv ?t ''CANCELLATION_REASON'' \<noteq> ''CANCELLED''"
    and h3: "Getenv ?c ''CANCELLATION_REASON'' = ''CANCELLED''"
    by (simp_all add: world_defs)
  have o1: "outgoing_request ?P ''/v1/workflows/approval/status''
     [(''status'', VString ''UPDATE_MANUAL_APPROVAL_STATUS_TIMED_OUT'')] ?t
     = Some (status_request [(''status'', VString ''UPDATE_MANUAL_APPROVAL_STATUS_TIMED_OUT'')])"
    and o2: "outgoing_request ?P ''/v1/workflows/approval/status''
     [(''status'', VString ''UPDATE_MANUAL_APPROVAL_STATUS_ABORTED'')] ?c
     = Some (status_request [(''status'', VString ''UPDATE_MANUAL_APPROVAL_STATUS_ABORTED'')])"
    by (simp_all add: outgoing_request_def defaultConfig_def status_request_def world_defs
          platform_defs)
  have w: "requests ?t = []" "files ?t = Map.empty" "requests ?c = []"
    by (simp_all add: world_defs)
  have b: "req_body (status_request [(''status'', VString ''UPDATE_MANUAL_APPROVAL_STATUS_TIMED_OUT'')]) =
     ''{'' @ q ''status'' @ '':'' @ q ''UPDATE_MANUAL_APPROVAL_STATUS_TIMED_OUT'' @ ''}''"
    by (simp add: status_request_def new_request_def encode_defs)
  have e: "cancel ?P ?t =
     (None, ?t\<lparr>printed := [''Workflow timed out'' @ NL,
            ''Workflow approval response was not received within allotted time.'' @ NL],
         requests := [status_request
            [(''status'', VString ''UPDATE_MANUAL_APPROVAL_STATUS_TIMED_OUT'')]]\<rparr>)"
    by (simp add: cancel_def post_def defaultConfig_def Let_def Println_def status_request_def
          world_defs platform_defs)
  from cancel_posts_status_and_writes_no_file[of ?P ?t] h1 h2 o1
  have "files (snd (cancel ?P ?t)) = files ?t \<and>
        requests (snd (cancel ?P ?t)) = requests ?t
          @ [status_request [(''status'', VString ''UPDATE_MANUAL_APPROVAL_STATUS_TIMED_OUT'')]]"
    by blast
  moreover from cancel_posts_status_and_writes_no_file[of ?P ?c] h3 o2
  have "requests (snd (cancel ?P ?c)) = requests ?c
          @ [status_request [(''status'', VString ''UPDATE_MANUAL_APPROVAL_STATUS_ABORTED'')]]"
    by blast
  ultimately show ?thesis using h1 h2 h3 o1 o2 w b e by simp
qed

end
